theory Spec2Isabelle
  imports Complex_Main
begin

section \<open>LinkForty Expo SDK: errors, storage, offline queue, event dispatch\<close>

text \<open>
  A shallow embedding of the attribution and delivery pipeline of the SDK. Every
  asynchronous method is modelled by a function that takes the objects it can reach and
  returns its result together with their new state; a rejected promise or a thrown
  exception is the \<open>Inl\<close> branch of a sum. The SDK runs on one cooperative thread, so
  the model runs each call to completion.
\<close>

subsection \<open>errors/linkforty-error.ts\<close>

datatype LinkFortyErrorCode =
    NOT_INITIALIZED
  | ALREADY_INITIALIZED
  | INVALID_CONFIGURATION
  | NETWORK_ERROR
  | INVALID_RESPONSE
  | DECODING_ERROR
  | INVALID_EVENT_DATA
  | INVALID_DEEP_LINK_URL
  | MISSING_API_KEY

text \<open>
  A thrown value is either a plain JavaScript \<open>Error\<close> with its message, or a
  \<open>LinkFortyError\<close> with its code, message and optional cause.
  \<open>e instanceof LinkFortyError\<close> is \<open>isLinkFortyError e\<close>.
\<close>

datatype Error =
    Error string
  | LinkFortyError LinkFortyErrorCode string "Error option"

fun isLinkFortyError :: "Error \<Rightarrow> bool" where
  "isLinkFortyError (LinkFortyError c m k) = True"
| "isLinkFortyError (Error m) = False"

fun message :: "Error \<Rightarrow> string" where
  "message (Error m) = m"
| "message (LinkFortyError c m k) = m"

fun code :: "Error \<Rightarrow> LinkFortyErrorCode option" where
  "code (Error m) = None"
| "code (LinkFortyError c m k) = Some c"

fun cause :: "Error \<Rightarrow> Error option" where
  "cause (Error m) = None"
| "cause (LinkFortyError c m k) = k"

text \<open>The decimal rendering of a status code inside a template literal.\<close>

definition digit_char :: "nat \<Rightarrow> char" where
  "digit_char d = char_of (48 + d)"

function String_of_nat :: "nat \<Rightarrow> string" where
  "String_of_nat n =
     (if n < 10 then [digit_char n] else String_of_nat (n div 10) @ [digit_char (n mod 10)])"
  by pat_completeness auto
termination
  by (relation "measure (\<lambda>n. n)") auto

declare String_of_nat.simps [simp del]

definition notInitialized :: Error where
  "notInitialized =
     LinkFortyError NOT_INITIALIZED
       ''LinkForty SDK is not initialized. Call initialize() first.'' None"

definition alreadyInitialized :: Error where
  "alreadyInitialized =
     LinkFortyError ALREADY_INITIALIZED ''LinkForty SDK has already been initialized.'' None"

definition invalidConfiguration :: "string \<Rightarrow> Error" where
  "invalidConfiguration detail =
     LinkFortyError INVALID_CONFIGURATION (''Invalid configuration: '' @ detail) None"

definition networkError :: "Error \<Rightarrow> Error" where
  "networkError c =
     LinkFortyError NETWORK_ERROR (''Network error: '' @ message c) (Some c)"

text \<open>
  \<open>message ? `: ${message}` : ''\<close>: an absent and an empty server message both give no
  detail.
\<close>

definition invalidResponse :: "nat \<Rightarrow> string option \<Rightarrow> Error" where
  "invalidResponse statusCode msg =
     (let detail = (case msg of None \<Rightarrow> [] | Some m \<Rightarrow> if m = [] then [] else '': '' @ m)
      in LinkFortyError INVALID_RESPONSE
           (''Invalid server response (status: '' @ String_of_nat statusCode @ '')'' @ detail)
           None)"

definition decodingError :: "Error \<Rightarrow> Error" where
  "decodingError c =
     LinkFortyError DECODING_ERROR (''Failed to decode response: '' @ message c) (Some c)"

definition invalidEventData :: "string \<Rightarrow> Error" where
  "invalidEventData detail =
     LinkFortyError INVALID_EVENT_DATA (''Invalid event data: '' @ detail) None"

definition missingApiKey :: Error where
  "missingApiKey =
     LinkFortyError MISSING_API_KEY
       ''API key is required for this operation. Provide an apiKey in the config.'' None"

subsection \<open>AsyncStorage\<close>

text \<open>
  The key/value store of \<open>@react-native-async-storage/async-storage\<close>, as its mock
  under \<open>__tests__/__mocks__\<close> implements it: a dictionary from keys to strings.
  The tests also make a read reject (\<open>Storage unavailable\<close>); \<open>read_error\<close> and
  \<open>write_error\<close> hold the error with which reads and writes reject, if they do.
\<close>

record AsyncStorage =
  items :: "string \<rightharpoonup> string"
  read_error :: "Error option"
  write_error :: "Error option"

definition getItem :: "AsyncStorage \<Rightarrow> string \<Rightarrow> Error + string option" where
  "getItem st k = (case read_error st of Some e \<Rightarrow> Inl e | None \<Rightarrow> Inr (items st k))"

definition setItem :: "AsyncStorage \<Rightarrow> string \<Rightarrow> string \<Rightarrow> Error + AsyncStorage" where
  "setItem st k v =
     (case write_error st of Some e \<Rightarrow> Inl e
      | None \<Rightarrow> Inr (st\<lparr>items := (items st)(k \<mapsto> v)\<rparr>))"

fun delete_keys :: "string list \<Rightarrow> (string \<rightharpoonup> string) \<Rightarrow> (string \<rightharpoonup> string)" where
  "delete_keys [] m = m"
| "delete_keys (k # ks) m = delete_keys ks (m(k := None))"

definition multiRemove :: "AsyncStorage \<Rightarrow> string list \<Rightarrow> Error + AsyncStorage" where
  "multiRemove st ks =
     (case write_error st of Some e \<Rightarrow> Inl e
      | None \<Rightarrow> Inr (st\<lparr>items := delete_keys ks (items st)\<rparr>))"

text \<open>
  \<open>storage/storage-keys.ts\<close> is not among the sources, so the four key strings of
  \<open>STORAGE_KEYS\<close> are a parameter of every function that uses them.
\<close>

record STORAGE_KEYS =
  INSTALL_ID :: string
  INSTALL_DATA :: string
  FIRST_LAUNCH :: string
  EVENT_QUEUE :: string

subsection \<open>models\<close>

text \<open>
  A value of type \<open>unknown\<close> in an event's properties. Numbers are the reals; \<open>NaN\<close>
  and the infinities are not modelled.
\<close>

datatype unknown = Number real | String string | Boolean bool | Null

text \<open>
  A \<open>Record<string, T>\<close> keeps its keys in insertion order; assigning to a key that
  is present replaces its value in place, assigning to a new key appends it.
\<close>

type_synonym properties = "(string \<times> unknown) list"

fun assign :: "string \<Rightarrow> 'v \<Rightarrow> (string \<times> 'v) list \<Rightarrow> (string \<times> 'v) list" where
  "assign k v [] = [(k, v)]"
| "assign k v (p # ps) = (if fst p = k then (k, v) # ps else p # assign k v ps)"

record EventRequest =
  installId :: string
  eventName :: string
  eventData :: properties
  timestamp :: string

text \<open>The field \<open>term\<close> of \<open>UTMParameters\<close> is written \<open>utm_term\<close>.\<close>

record UTMParameters =
  source :: "string option"
  medium :: "string option"
  campaign :: "string option"
  utm_term :: "string option"
  content :: "string option"

text \<open>
  \<open>deepLinkParameters\<close> is the legacy field a server response may carry beside the
  declared fields of \<open>DeepLinkData\<close>.
\<close>

record DeepLinkData =
  shortCode :: string
  iosUrl :: "string option"
  androidUrl :: "string option"
  webUrl :: "string option"
  utmParameters :: "UTMParameters option"
  customParameters :: "(string \<times> string) list option"
  deepLinkPath :: "string option"
  appScheme :: "string option"
  clickedAt :: "string option"
  linkId :: "string option"
  deepLinkParameters :: "(string \<times> string) list option"

text \<open>
  \<open>JSON.stringify\<close> and \<open>JSON.parse\<close> belong to the language, not to the SDK, and
  are parameters. \<open>parse_queue\<close> and \<open>parse_data\<close> give \<open>None\<close> where
  \<open>JSON.parse\<close> throws; \<open>parse_data\<close> gives \<open>Some None\<close> for the text \<open>null\<close>.
  The casts \<open>as EventRequest[]\<close> and \<open>as DeepLinkData\<close> are taken at their word.
\<close>

record JSON =
  stringify_queue :: "EventRequest list \<Rightarrow> string"
  parse_queue :: "string \<Rightarrow> EventRequest list option"
  stringify_data :: "DeepLinkData \<Rightarrow> string"
  parse_data :: "string \<Rightarrow> DeepLinkData option option"

subsection \<open>events/event-queue.ts\<close>

definition MAX_QUEUE_SIZE :: nat where
  "MAX_QUEUE_SIZE = 100"

record EventQueue =
  queue :: "EventRequest list"
  loaded :: bool

definition new_EventQueue :: EventQueue where
  "new_EventQueue = \<lparr>queue = [], loaded = False\<rparr>"

text \<open>
  \<open>load\<close> reads the store only the first time. A rejected read and an unparsable text
  both reset the queue to empty; an absent or empty text leaves it as it is.
\<close>

definition load :: "STORAGE_KEYS \<Rightarrow> JSON \<Rightarrow> EventQueue \<Rightarrow> AsyncStorage \<Rightarrow> EventQueue" where
  "load K J q st =
     (if loaded q then q
      else (case getItem st (EVENT_QUEUE K) of
              Inl e \<Rightarrow> q\<lparr>queue := [], loaded := True\<rparr>
            | Inr None \<Rightarrow> q\<lparr>loaded := True\<rparr>
            | Inr (Some json) \<Rightarrow>
                if json = [] then q\<lparr>loaded := True\<rparr>
                else (case parse_queue J json of
                        None \<Rightarrow> q\<lparr>queue := [], loaded := True\<rparr>
                      | Some evs \<Rightarrow> q\<lparr>queue := evs, loaded := True\<rparr>)))"

text \<open>\<open>persist\<close> swallows a rejected write: the store keeps its old text.\<close>

definition persist :: "STORAGE_KEYS \<Rightarrow> JSON \<Rightarrow> EventQueue \<Rightarrow> AsyncStorage \<Rightarrow> AsyncStorage" where
  "persist K J q st =
     (case setItem st (EVENT_QUEUE K) (stringify_queue J (queue q)) of
        Inl e \<Rightarrow> st
      | Inr st' \<Rightarrow> st')"

definition enqueue ::
  "STORAGE_KEYS \<Rightarrow> JSON \<Rightarrow> EventRequest \<Rightarrow> EventQueue \<Rightarrow> AsyncStorage
     \<Rightarrow> bool \<times> EventQueue \<times> AsyncStorage" where
  "enqueue K J event q st =
     (let q1 = load K J q st in
      if length (queue q1) \<ge> MAX_QUEUE_SIZE then (False, q1, st)
      else (let q2 = q1\<lparr>queue := queue q1 @ [event]\<rparr>
            in (True, q2, persist K J q2 st)))"

definition dequeue ::
  "STORAGE_KEYS \<Rightarrow> JSON \<Rightarrow> EventQueue \<Rightarrow> AsyncStorage
     \<Rightarrow> EventRequest option \<times> EventQueue \<times> AsyncStorage" where
  "dequeue K J q st =
     (let q1 = load K J q st in
      case queue q1 of
        [] \<Rightarrow> (None, q1, st)
      | event # rest \<Rightarrow>
          (let q2 = q1\<lparr>queue := rest\<rparr> in (Some event, q2, persist K J q2 st)))"

definition peek ::
  "STORAGE_KEYS \<Rightarrow> JSON \<Rightarrow> EventQueue \<Rightarrow> AsyncStorage \<Rightarrow> EventRequest list \<times> EventQueue" where
  "peek K J q st = (let q1 = load K J q st in (queue q1, q1))"

text \<open>\<open>clear\<close> does not load first and leaves \<open>loaded\<close> as it is.\<close>

definition clear :: "STORAGE_KEYS \<Rightarrow> JSON \<Rightarrow> EventQueue \<Rightarrow> AsyncStorage \<Rightarrow> EventQueue \<times> AsyncStorage" where
  "clear K J q st = (let q1 = q\<lparr>queue := []\<rparr> in (q1, persist K J q1 st))"

definition count :: "EventQueue \<Rightarrow> nat" where
  "count q = length (queue q)"

definition isEmpty :: "EventQueue \<Rightarrow> bool" where
  "isEmpty q = (length (queue q) = 0)"

subsection \<open>The network as the SDK's components see it\<close>

record DeviceFingerprint =
  userAgent :: string
  timezone :: string
  language :: string
  screenWidth :: int
  screenHeight :: int
  platform :: string
  platformVersion :: string
  appVersion :: string
  deviceId :: "string option"
  attributionWindowHours :: real

text \<open>The \<open>installId\<close> of the response is written \<open>response_installId\<close>.\<close>

record InstallAttributionResponse =
  response_installId :: string
  attributed :: bool
  confidenceScore :: real
  matchedFactors :: "string list"
  deepLinkData :: "DeepLinkData option"

text \<open>
  The body of a request, before \<open>JSON.stringify\<close>: an event, a fingerprint, the
  fields of a link to create, or none.
\<close>

record LinkBody =
  body_templateId :: "string option"
  body_deepLinkParameters :: "(string \<times> string) list option"
  body_title :: "string option"
  body_description :: "string option"
  body_customCode :: "string option"
  body_utmParameters :: "UTMParameters option"

datatype body =
    EventBody EventRequest
  | FingerprintBody DeviceFingerprint
  | CreateLinkBody LinkBody
  | NoBody

record LinkResponse =
  link_id :: "string option"
  link_short_code :: "string option"
  link_url :: "string option"
  link_shortCode :: "string option"
  link_linkId :: "string option"

text \<open>
  \<open>NetworkManagerProtocol\<close> has the one method \<open>request\<close>. Its answers are the
  environment's: the answer to a call is a function of the number of calls made before
  it, one function for each response type the SDK asks for. \<open>None\<close> in
  \<open>event_reply\<close> is a resolved promise (the event call ignores the value), an error is
  a rejected one.
\<close>

record Network =
  event_reply :: "nat \<Rightarrow> Error option"
  install_reply :: "nat \<Rightarrow> Error + InstallAttributionResponse"
  link_reply :: "nat \<Rightarrow> Error + LinkResponse"

text \<open>
  A callback that the application registers is known by a number; what the model keeps
  of a call to it is which callback was called and with what. Callbacks that call back
  into the SDK are not modelled.
\<close>

type_synonym callback = nat

datatype invocation =
    DeferredCall callback "DeepLinkData option"
  | DirectCall callback string "DeepLinkData option"

text \<open>
  What the SDK acts on outside its own objects: the store, the log of the calls made to
  \<open>network.request\<close>, endpoint and body, and the log of the calls made to the
  application's callbacks, both oldest first.
\<close>

record world =
  storage :: AsyncStorage
  requests :: "(string \<times> body) list"
  invoked :: "invocation list"

subsection \<open>storage/storage-manager.ts\<close>

definition saveInstallId :: "STORAGE_KEYS \<Rightarrow> string \<Rightarrow> AsyncStorage \<Rightarrow> Error + AsyncStorage" where
  "saveInstallId K iid st = setItem st (INSTALL_ID K) iid"

definition getInstallId :: "STORAGE_KEYS \<Rightarrow> AsyncStorage \<Rightarrow> Error + string option" where
  "getInstallId K st = getItem st (INSTALL_ID K)"

definition saveInstallData ::
  "STORAGE_KEYS \<Rightarrow> JSON \<Rightarrow> DeepLinkData \<Rightarrow> AsyncStorage \<Rightarrow> AsyncStorage" where
  "saveInstallData K J d st =
     (case setItem st (INSTALL_DATA K) (stringify_data J d) of
        Inl e \<Rightarrow> st
      | Inr st' \<Rightarrow> st')"

definition getInstallData :: "STORAGE_KEYS \<Rightarrow> JSON \<Rightarrow> AsyncStorage \<Rightarrow> DeepLinkData option" where
  "getInstallData K J st =
     (case getItem st (INSTALL_DATA K) of
        Inl e \<Rightarrow> None
      | Inr None \<Rightarrow> None
      | Inr (Some json) \<Rightarrow>
          if json = [] then None
          else (case parse_data J json of None \<Rightarrow> None | Some d \<Rightarrow> d))"

definition isFirstLaunch :: "STORAGE_KEYS \<Rightarrow> AsyncStorage \<Rightarrow> Error + bool" where
  "isFirstLaunch K st =
     (case getItem st (FIRST_LAUNCH K) of Inl e \<Rightarrow> Inl e | Inr flag \<Rightarrow> Inr (flag = None))"

definition setHasLaunched :: "STORAGE_KEYS \<Rightarrow> AsyncStorage \<Rightarrow> Error + AsyncStorage" where
  "setHasLaunched K st = setItem st (FIRST_LAUNCH K) ''true''"

definition clearAll :: "STORAGE_KEYS \<Rightarrow> AsyncStorage \<Rightarrow> Error + AsyncStorage" where
  "clearAll K st =
     multiRemove st [INSTALL_ID K, INSTALL_DATA K, FIRST_LAUNCH K, EVENT_QUEUE K]"

subsection \<open>events/event-tracker.ts\<close>

text \<open>
  \<open>String.prototype.trim\<close> on strings of Latin-1 code units: tab, line feed, vertical
  tab, form feed, carriage return, space and no-break space are white space.
\<close>

definition isWhiteSpace :: "char \<Rightarrow> bool" where
  "isWhiteSpace c = (of_char c \<in> {9, 10, 11, 12, 13, 32, 160 :: nat})"

definition trim :: "string \<Rightarrow> string" where
  "trim s = rev (dropWhile isWhiteSpace (rev (dropWhile isWhiteSpace s)))"

text \<open>The call that \<open>sendEvent\<close> makes for an event: the endpoint and the body.\<close>

definition event_call :: "EventRequest \<Rightarrow> string \<times> body" where
  "event_call e = (''/api/sdk/v1/event'', EventBody e)"

text \<open>
  \<open>sendEvent\<close> posts the event; the call is logged whether it resolves or rejects.
\<close>

definition sendEvent :: "Network \<Rightarrow> EventRequest \<Rightarrow> world \<Rightarrow> (Error + unit) \<times> world" where
  "sendEvent N event w =
     (let w' = w\<lparr>requests := requests w @ [event_call event]\<rparr>
      in case event_reply N (length (requests w)) of
           Some e \<Rightarrow> (Inl e, w')
         | None \<Rightarrow> (Inr (), w'))"

text \<open>
  The loop of \<open>flushQueue\<close>. Beside the new state it returns what the source computes and
  drops: the value of the \<open>enqueue\<close> that puts a failed record back, \<open>None\<close> when no
  send failed.
\<close>

function flushLoop ::
  "STORAGE_KEYS \<Rightarrow> JSON \<Rightarrow> Network \<Rightarrow> EventQueue \<Rightarrow> world
     \<Rightarrow> bool option \<times> EventQueue \<times> world" where
  "flushLoop K J N q w =
     (if isEmpty q then (None, q, w)
      else (case dequeue K J q (storage w) of
              (None, q1, st1) \<Rightarrow> (None, q1, w\<lparr>storage := st1\<rparr>)
            | (Some event, q1, st1) \<Rightarrow>
                (case sendEvent N event (w\<lparr>storage := st1\<rparr>) of
                   (Inr u, w2) \<Rightarrow> flushLoop K J N q1 w2
                 | (Inl e, w2) \<Rightarrow>
                     (case enqueue K J event q1 (storage w2) of
                        (added, q3, st3) \<Rightarrow> (Some added, q3, w2\<lparr>storage := st3\<rparr>)))))"
  by pat_completeness auto

lemma loaded_load: "loaded (load K J q st)"
  by (simp add: load_def split: sum.splits option.splits)

lemma load_loaded: "loaded q \<Longrightarrow> load K J q st = q"
  by (simp add: load_def)

lemma dequeue_Some:
  "dequeue K J q st = (Some ev, q1, st1) \<Longrightarrow>
     loaded q1 \<and> queue (load K J q st) = ev # queue q1"
  by (auto simp: dequeue_def Let_def loaded_load split: list.splits)

lemma dequeue_decreases:
  "(Some ev, q1, st1) = dequeue K J q st \<Longrightarrow>
     loaded q1 \<and> (loaded q \<longrightarrow> length (queue q1) < length (queue q))"
  using dequeue_Some [of K J q st ev q1 st1] load_loaded [of q K J st]
  by (cases "loaded q") auto

text \<open>
  Each round removes the head of a loaded queue; only the first \<open>dequeue\<close> can meet a
  queue that is not loaded.
\<close>

termination flushLoop
  by (relation "measures [\<lambda>(K, J, N, q, w). if loaded q then 0 else 1,
                           \<lambda>(K, J, N, q, w). length (queue q)]")
     (auto dest!: dequeue_decreases)

declare flushLoop.simps [simp del]

definition flushQueue ::
  "STORAGE_KEYS \<Rightarrow> JSON \<Rightarrow> Network \<Rightarrow> EventQueue \<Rightarrow> world \<Rightarrow> EventQueue \<times> world" where
  "flushQueue K J N q w =
     (case flushLoop K J N (load K J q (storage w)) w of (r, q', w') \<Rightarrow> (q', w'))"

text \<open>
  \<open>trackEvent\<close>. \<open>now\<close> is \<open>new Date().toISOString()\<close> at the call. The \<open>try\<close> block
  also covers \<open>flushQueue\<close>, which has no way to throw: every \<open>await\<close> in it is a
  queue method that catches its own failures, or \<open>sendEvent\<close> inside its own \<open>try\<close>.
\<close>

definition trackEvent ::
  "STORAGE_KEYS \<Rightarrow> JSON \<Rightarrow> Network \<Rightarrow> string \<Rightarrow> string \<Rightarrow> properties option
     \<Rightarrow> EventQueue \<Rightarrow> world \<Rightarrow> (Error + unit) \<times> EventQueue \<times> world" where
  "trackEvent K J N now name props q w =
     (if name = [] \<or> trim name = []
      then (Inl (invalidEventData ''Event name cannot be empty''), q, w)
      else (case getInstallId K (storage w) of
              Inl e \<Rightarrow> (Inl e, q, w)
            | Inr None \<Rightarrow> (Inl notInitialized, q, w)
            | Inr (Some iid) \<Rightarrow>
                if iid = [] then (Inl notInitialized, q, w)
                else (let event = \<lparr>installId = iid, eventName = name,
                                     eventData = (case props of None \<Rightarrow> [] | Some p \<Rightarrow> p),
                                     timestamp = now\<rparr>
                      in case sendEvent N event w of
                           (Inr u, w1) \<Rightarrow>
                             (case flushQueue K J N q w1 of (q2, w2) \<Rightarrow> (Inr (), q2, w2))
                         | (Inl e, w1) \<Rightarrow>
                             (case enqueue K J event q (storage w1) of
                                (added, q2, st2) \<Rightarrow> (Inl e, q2, w1\<lparr>storage := st2\<rparr>)))))"

definition trackRevenue ::
  "STORAGE_KEYS \<Rightarrow> JSON \<Rightarrow> Network \<Rightarrow> string \<Rightarrow> real \<Rightarrow> string \<Rightarrow> properties option
     \<Rightarrow> EventQueue \<Rightarrow> world \<Rightarrow> (Error + unit) \<times> EventQueue \<times> world" where
  "trackRevenue K J N now amount currency props q w =
     (if amount < 0
      then (Inl (invalidEventData ''Revenue amount must be non-negative''), q, w)
      else (let eventProperties =
                  assign ''currency'' (String currency)
                    (assign ''revenue'' (Number amount)
                       (case props of None \<Rightarrow> [] | Some p \<Rightarrow> p))
            in trackEvent K J N now ''revenue'' (Some eventProperties) q w))"

definition clearQueue ::
  "STORAGE_KEYS \<Rightarrow> JSON \<Rightarrow> EventQueue \<Rightarrow> world \<Rightarrow> EventQueue \<times> world" where
  "clearQueue K J q w = (case clear K J q (storage w) of (q1, st1) \<Rightarrow> (q1, w\<lparr>storage := st1\<rparr>))"

definition queuedEventCount :: "EventQueue \<Rightarrow> nat" where
  "queuedEventCount q = count q"

text \<open>
  What a call that tracks \<open>event\<close> from queue \<open>q\<close> and world \<open>w\<close> has done when it
  settles with \<open>out\<close>: the event was posted first; if the post resolved, the call
  resolves, the queue and the world are what \<open>flushQueue\<close> then leaves, and the queue
  has no record it did not have; if the post was rejected with
  \<open>e\<close>, the call rejects with \<open>e\<close>, nothing else was posted, and the queue (as loaded)
  has the event appended if it held fewer than \<open>MAX_QUEUE_SIZE\<close> records and is as it was
  otherwise.
\<close>

definition sent_or_queued ::
  "STORAGE_KEYS \<Rightarrow> JSON \<Rightarrow> Network \<Rightarrow> EventRequest \<Rightarrow> EventQueue \<Rightarrow> world
     \<Rightarrow> (Error + unit) \<times> EventQueue \<times> world \<Rightarrow> bool" where
  "sent_or_queued K J N event q w out =
     (case out of
        (res, q', w') \<Rightarrow>
          take (Suc (length (requests w))) (requests w') = requests w @ [event_call event] \<and>
          (case event_reply N (length (requests w)) of
             None \<Rightarrow>
               res = Inr () \<and> set (queue q') \<subseteq> set (queue (load K J q (storage w))) \<and>
               (q', w') = flushQueue K J N q (w\<lparr>requests := requests w @ [event_call event]\<rparr>)
           | Some e \<Rightarrow>
               res = Inl e \<and> requests w' = requests w @ [event_call event] \<and>
               queue q' =
                 (if count (load K J q (storage w)) < MAX_QUEUE_SIZE
                  then queue (load K J q (storage w)) @ [event]
                  else queue (load K J q (storage w)))))"

subsection \<open>Sequences of queue operations\<close>

datatype queue_op = Load | Enqueue EventRequest | Dequeue | Clear

fun apply_op ::
  "STORAGE_KEYS \<Rightarrow> JSON \<Rightarrow> queue_op \<Rightarrow> EventQueue \<times> AsyncStorage \<Rightarrow> EventQueue \<times> AsyncStorage" where
  "apply_op K J Load (q, st) = (load K J q st, st)"
| "apply_op K J (Enqueue e) (q, st) = snd (enqueue K J e q st)"
| "apply_op K J Dequeue (q, st) = snd (dequeue K J q st)"
| "apply_op K J Clear (q, st) = clear K J q st"

fun run_ops ::
  "STORAGE_KEYS \<Rightarrow> JSON \<Rightarrow> queue_op list \<Rightarrow> EventQueue \<times> AsyncStorage \<Rightarrow> EventQueue \<times> AsyncStorage" where
  "run_ops K J [] s = s"
| "run_ops K J (x # xs) s = run_ops K J xs (apply_op K J x s)"

text \<open>Enqueueing a list of records one after the other, with the value of each call.\<close>

fun enqueue_all ::
  "STORAGE_KEYS \<Rightarrow> JSON \<Rightarrow> EventRequest list \<Rightarrow> EventQueue \<Rightarrow> AsyncStorage
     \<Rightarrow> bool list \<times> EventQueue \<times> AsyncStorage" where
  "enqueue_all K J [] q st = ([], q, st)"
| "enqueue_all K J (e # es) q st =
     (case enqueue K J e q st of
        (added, q1, st1) \<Rightarrow>
          (case enqueue_all K J es q1 st1 of (bs, q2, st2) \<Rightarrow> (added # bs, q2, st2)))"

text \<open>
  The queue is within capacity when the records the instance holds, and the records it
  would hold after loading, are at most \<open>MAX_QUEUE_SIZE\<close>: an instance that has not
  loaded yet takes its records from the store.
\<close>

definition within_capacity :: "STORAGE_KEYS \<Rightarrow> JSON \<Rightarrow> EventQueue \<times> AsyncStorage \<Rightarrow> bool" where
  "within_capacity K J s =
     (case s of (q, st) \<Rightarrow> count q \<le> MAX_QUEUE_SIZE \<and> count (load K J q st) \<le> MAX_QUEUE_SIZE)"

subsection \<open>network/network-manager.ts\<close>

text \<open>
  What \<open>fetch\<close> gives: a rejection, or a response with its status and the outcome of
  \<open>response.json()\<close>, which either throws or gives a value. Of a parsed value the model
  keeps the \<open>message\<close> and \<open>error\<close> fields, read when the status is not a success, and
  the value itself. \<open>response.ok\<close> is a status from 200 to 299.
\<close>

datatype 'a json =
    JsonThrows Error
  | Json (message_field: "string option") (error_field: "string option") (json_value: 'a)

record 'a Response =
  status :: nat
  response_json :: "'a json"

datatype 'a FetchResult = Rejected Error | Resolved "'a Response"

definition ok :: "'a Response \<Rightarrow> bool" where
  "ok r = (200 \<le> status r \<and> status r \<le> 299)"

text \<open>The \<open>method\<close> and \<open>body\<close> of \<open>RequestInit\<close> are \<open>request_method\<close> and \<open>request_body\<close>.\<close>

record RequestInit =
  request_method :: "string option"
  request_body :: "string option"
  headers :: "(string \<times> string) list"

record NetworkManager =
  baseUrl :: string
  apiKey :: "string option"

definition maxRetries :: nat where
  "maxRetries = 3"

text \<open>The constructor strips the trailing slashes of the base URL.\<close>

definition stripTrailingSlashes :: "string \<Rightarrow> string" where
  "stripTrailingSlashes s = rev (dropWhile (\<lambda>c. c = CHR ''/'') (rev s))"

definition new_NetworkManager :: "string \<Rightarrow> string option \<Rightarrow> NetworkManager" where
  "new_NetworkManager url key = \<lparr>baseUrl = stripTrailingSlashes url, apiKey = key\<rparr>"

text \<open>
  What the transport does to its surroundings is a trace, oldest first, of the calls to
  \<open>fetch\<close>, with URL and headers, and of the delays waited, in milliseconds. The outcome
  of a call to \<open>fetch\<close> is a function of the number of calls made before it.
\<close>

datatype net_event = Fetch string "(string \<times> string) list" | Delay nat

fun isFetch :: "net_event \<Rightarrow> bool" where
  "isFetch (Fetch url hs) = True"
| "isFetch (Delay ms) = False"

definition fetchCount :: "net_event list \<Rightarrow> nat" where
  "fetchCount t = length (filter isFetch t)"

text \<open>\<open>body.message || body.error\<close>, \<open>undefined\<close> when reading the body throws.\<close>

definition serverMessage :: "'a json \<Rightarrow> string option" where
  "serverMessage j =
     (case j of
        JsonThrows e \<Rightarrow> None
      | Json m er v \<Rightarrow>
          (case m of None \<Rightarrow> er | Some t \<Rightarrow> if t = [] then er else Some t))"

text \<open>The call to \<open>fetch\<close> that \<open>performRequest\<close> makes: the URL and the headers.\<close>

definition fetchCall :: "NetworkManager \<Rightarrow> string \<Rightarrow> RequestInit \<Rightarrow> net_event" where
  "fetchCall M endpoint options =
     (let url = baseUrl M @ endpoint;
          headers0 = foldl (\<lambda>h (k, v). assign k v h)
                       [(''Content-Type'', ''application/json'')] (headers options);
          headers1 = (case apiKey M of
                        None \<Rightarrow> headers0
                      | Some key \<Rightarrow>
                          if key = [] then headers0
                          else assign ''Authorization'' (''Bearer '' @ key) headers0)
      in Fetch url headers1)"

definition performRequest ::
  "NetworkManager \<Rightarrow> (nat \<Rightarrow> 'a FetchResult) \<Rightarrow> string \<Rightarrow> RequestInit \<Rightarrow> net_event list
     \<Rightarrow> (Error + 'a) \<times> net_event list" where
  "performRequest M fetch endpoint options t =
     (let t' = t @ [fetchCall M endpoint options]
      in case fetch (fetchCount t) of
           Rejected e \<Rightarrow> (Inl (networkError e), t')
         | Resolved response \<Rightarrow>
             if \<not> ok response
             then (Inl (invalidResponse (status response)
                          (serverMessage (response_json response))), t')
             else (case response_json response of
                     JsonThrows e \<Rightarrow> (Inl (decodingError e), t')
                   | Json m er v \<Rightarrow> (Inr v, t')))"

text \<open>
  \<open>e.message.match(/status: (\d+)/)\<close> and \<open>parseInt(statusMatch[1], 10)\<close>: the leftmost
  place where \<open>status: \<close> is followed by a digit, and the number its digits spell.
\<close>

definition isDigit :: "char \<Rightarrow> bool" where
  "isDigit c = (48 \<le> (of_char c :: nat) \<and> (of_char c :: nat) \<le> 57)"

definition parseInt :: "string \<Rightarrow> nat" where
  "parseInt ds = foldl (\<lambda>n c. 10 * n + (of_char c - 48)) 0 ds"

fun matchStatus :: "string \<Rightarrow> nat option" where
  "matchStatus [] = None"
| "matchStatus (c # cs) =
     (if take 8 (c # cs) = ''status: '' \<and> takeWhile isDigit (drop 8 (c # cs)) \<noteq> []
      then Some (parseInt (takeWhile isDigit (drop 8 (c # cs))))
      else matchStatus cs)"

text \<open>The errors that \<open>request\<close> rethrows at once instead of retrying.\<close>

definition notRetried :: "Error \<Rightarrow> bool" where
  "notRetried e =
     (isLinkFortyError e \<and>
      ((code e = Some INVALID_RESPONSE \<and>
        (case matchStatus (message e) of
           None \<Rightarrow> False
         | Some st \<Rightarrow> 400 \<le> st \<and> st < 500)) \<or>
       code e = Some INVALID_CONFIGURATION \<or> code e = Some DECODING_ERROR))"

text \<open>
  The \<open>for\<close> loop of \<open>request\<close>, from attempt \<open>attempt\<close> on, with \<open>lastError\<close> as the
  attempts before it left it.
\<close>

function requestLoop ::
  "NetworkManager \<Rightarrow> (nat \<Rightarrow> 'a FetchResult) \<Rightarrow> string \<Rightarrow> RequestInit \<Rightarrow> nat
     \<Rightarrow> Error option \<Rightarrow> net_event list \<Rightarrow> (Error + 'a) \<times> net_event list" where
  "requestLoop M fetch endpoint options attempt lastError t =
     (if attempt \<le> maxRetries
      then (case performRequest M fetch endpoint options t of
              (Inr v, t1) \<Rightarrow> (Inr v, t1)
            | (Inl e, t1) \<Rightarrow>
                if notRetried e then (Inl e, t1)
                else requestLoop M fetch endpoint options (attempt + 1) (Some e)
                       (if attempt < maxRetries
                        then t1 @ [Delay (2 ^ (attempt - 1) * 1000)]
                        else t1))
      else (case lastError of
              Some e \<Rightarrow> (Inl (if isLinkFortyError e then e else networkError e), t)
            | None \<Rightarrow>
                (Inl (networkError
                        (Error (''Request failed after '' @ String_of_nat maxRetries
                                  @ '' attempts''))), t)))"
  by pat_completeness auto
termination
  by (relation "measure (\<lambda>(M, fetch, endpoint, options, attempt, lastError, t).
                            maxRetries + 1 - attempt)") auto

declare requestLoop.simps [simp del]

definition request ::
  "NetworkManager \<Rightarrow> (nat \<Rightarrow> 'a FetchResult) \<Rightarrow> string \<Rightarrow> RequestInit \<Rightarrow> net_event list
     \<Rightarrow> (Error + 'a) \<times> net_event list" where
  "request M fetch endpoint options t = requestLoop M fetch endpoint options 1 None t"

text \<open>
  The error with which an attempt fails, as a function of what \<open>fetch\<close> gave, and the
  outcomes of \<open>fetch\<close> after which \<open>request\<close> goes on to the next attempt: a rejection, or
  a status that is neither a success nor from 400 to 499.
\<close>

definition attemptFailure :: "'a FetchResult \<Rightarrow> Error option" where
  "attemptFailure x =
     (case x of
        Rejected e \<Rightarrow> Some (networkError e)
      | Resolved r \<Rightarrow>
          if \<not> ok r then Some (invalidResponse (status r) (serverMessage (response_json r)))
          else (case response_json r of
                  JsonThrows e \<Rightarrow> Some (decodingError e)
                | Json m er v \<Rightarrow> None))"

definition retried :: "'a FetchResult \<Rightarrow> bool" where
  "retried x =
     (case x of
        Rejected e \<Rightarrow> True
      | Resolved r \<Rightarrow> \<not> ok r \<and> \<not> (400 \<le> status r \<and> status r < 500))"

subsection \<open>attribution/attribution-manager.ts\<close>

text \<open>
  \<open>FingerprintCollectorProtocol.collect\<close> is a parameter: it gives a fingerprint for an
  attribution window and an optional device id, or throws.
\<close>

type_synonym collector = "real \<Rightarrow> string option \<Rightarrow> Error + DeviceFingerprint"

definition buildCachedResponse ::
  "STORAGE_KEYS \<Rightarrow> JSON \<Rightarrow> world \<Rightarrow> (Error + InstallAttributionResponse) \<times> world" where
  "buildCachedResponse K J w =
     (case getInstallId K (storage w) of
        Inl e \<Rightarrow> (Inl e, w)
      | Inr iid \<Rightarrow>
          (let d = getInstallData K J (storage w)
           in (Inr \<lparr>response_installId = (case iid of None \<Rightarrow> [] | Some i \<Rightarrow> i),
                     attributed = (d \<noteq> None),
                     confidenceScore = (if d \<noteq> None then 100 else 0),
                     matchedFactors = [],
                     deepLinkData = d\<rparr>, w)))"

text \<open>
  \<open>{...response.deepLinkData, customParameters: deepLinkParameters ?? customParameters}\<close>
\<close>

definition normalize :: "DeepLinkData \<Rightarrow> DeepLinkData" where
  "normalize d =
     d\<lparr>customParameters :=
          (case deepLinkParameters d of Some p \<Rightarrow> Some p | None \<Rightarrow> customParameters d)\<rparr>"

definition reportInstall ::
  "STORAGE_KEYS \<Rightarrow> JSON \<Rightarrow> Network \<Rightarrow> collector \<Rightarrow> real \<Rightarrow> string option \<Rightarrow> world
     \<Rightarrow> (Error + InstallAttributionResponse) \<times> world" where
  "reportInstall K J N collect hours device w =
     (case isFirstLaunch K (storage w) of
        Inl e \<Rightarrow> (Inl e, w)
      | Inr False \<Rightarrow> buildCachedResponse K J w
      | Inr True \<Rightarrow>
          (case collect hours device of
             Inl e \<Rightarrow> (Inl e, w)
           | Inr fp \<Rightarrow>
               (let w1 = w\<lparr>requests := requests w @ [(''/api/sdk/v1/install'', FingerprintBody fp)]\<rparr>
                in case install_reply N (length (requests w)) of
                     Inl e \<Rightarrow>
                       (case setHasLaunched K (storage w1) of
                          Inl e' \<Rightarrow> (Inl e', w1)
                        | Inr st \<Rightarrow>
                            (Inr \<lparr>response_installId = [], attributed = False,
                                   confidenceScore = 0, matchedFactors = [],
                                   deepLinkData = None\<rparr>, w1\<lparr>storage := st\<rparr>))
                   | Inr response \<Rightarrow>
                       (case (if response_installId response \<noteq> []
                              then saveInstallId K (response_installId response) (storage w1)
                              else Inr (storage w1)) of
                          Inl e \<Rightarrow> (Inl e, w1)
                        | Inr st2 \<Rightarrow>
                            (case (case deepLinkData response of
                                     Some d \<Rightarrow>
                                       if attributed response
                                       then (response\<lparr>deepLinkData := Some (normalize d)\<rparr>,
                                             saveInstallData K J (normalize d) st2)
                                       else (response, st2)
                                   | None \<Rightarrow> (response, st2)) of
                               (response', st3) \<Rightarrow>
                                 (case setHasLaunched K st3 of
                                    Inl e \<Rightarrow> (Inl e, w1\<lparr>storage := st3\<rparr>)
                                  | Inr st4 \<Rightarrow> (Inr response', w1\<lparr>storage := st4\<rparr>)))))))"

definition clearData :: "STORAGE_KEYS \<Rightarrow> world \<Rightarrow> (Error + unit) \<times> world" where
  "clearData K w =
     (case clearAll K (storage w) of
        Inl e \<Rightarrow> (Inl e, w)
      | Inr st \<Rightarrow> (Inr (), w\<lparr>storage := st\<rparr>))"

subsection \<open>deeplink/deep-link-handler.ts\<close>

record DeepLinkHandler =
  handler_baseUrl :: string
  deferredCallbacks :: "callback list"
  deepLinkCallbacks :: "callback list"
  deferredDelivered :: bool
  cachedDeferredData :: "DeepLinkData option"
  subscription :: bool

definition new_DeepLinkHandler :: "string \<Rightarrow> DeepLinkHandler" where
  "new_DeepLinkHandler url =
     \<lparr>handler_baseUrl = stripTrailingSlashes url, deferredCallbacks = [],
      deepLinkCallbacks = [], deferredDelivered = False, cachedDeferredData = None,
      subscription = False\<rparr>"

definition startListening :: "DeepLinkHandler \<Rightarrow> DeepLinkHandler" where
  "startListening h = h\<lparr>subscription := True\<rparr>"

definition onDeferredDeepLink ::
  "callback \<Rightarrow> DeepLinkHandler \<Rightarrow> world \<Rightarrow> DeepLinkHandler \<times> world" where
  "onDeferredDeepLink cb h w =
     (h\<lparr>deferredCallbacks := deferredCallbacks h @ [cb]\<rparr>,
      if deferredDelivered h
      then w\<lparr>invoked := invoked w @ [DeferredCall cb (cachedDeferredData h)]\<rparr>
      else w)"

definition onDeepLink :: "callback \<Rightarrow> DeepLinkHandler \<Rightarrow> DeepLinkHandler" where
  "onDeepLink cb h = h\<lparr>deepLinkCallbacks := deepLinkCallbacks h @ [cb]\<rparr>"

definition deliverDeferredDeepLink ::
  "DeepLinkData option \<Rightarrow> DeepLinkHandler \<Rightarrow> world \<Rightarrow> DeepLinkHandler \<times> world" where
  "deliverDeferredDeepLink d h w =
     (h\<lparr>cachedDeferredData := d, deferredDelivered := True\<rparr>,
      w\<lparr>invoked := invoked w @ map (\<lambda>cb. DeferredCall cb d) (deferredCallbacks h)\<rparr>)"

definition clearCallbacks :: "DeepLinkHandler \<Rightarrow> DeepLinkHandler" where
  "clearCallbacks h =
     h\<lparr>deferredCallbacks := [], deepLinkCallbacks := [], deferredDelivered := False,
       cachedDeferredData := None\<rparr>"

definition cleanup :: "DeepLinkHandler \<Rightarrow> DeepLinkHandler" where
  "cleanup h = clearCallbacks (h\<lparr>subscription := False\<rparr>)"

text \<open>
  \<open>handleUrl\<close>, with the parser of \<open>url-parser.ts\<close> and the outcome of \<open>resolveUrl\<close>
  (\<open>null\<close> when resolution fails) as parameters; the delivery that the source makes when
  the resolution settles is made at once.
\<close>

definition handleUrl ::
  "(string \<Rightarrow> string \<Rightarrow> DeepLinkData option) \<Rightarrow> (string \<Rightarrow> world \<Rightarrow> DeepLinkData option \<times> world)
     \<Rightarrow> string \<Rightarrow> DeepLinkHandler \<Rightarrow> world \<Rightarrow> world" where
  "handleUrl parseDeepLinkUrl resolveUrl url h w =
     (if url = [] \<or> deepLinkCallbacks h = [] then w
      else (let localData = parseDeepLinkUrl url (handler_baseUrl h)
            in if localData \<noteq> None \<and> take (length (handler_baseUrl h)) url = handler_baseUrl h
               then (case resolveUrl url w of
                       (resolvedData, w1) \<Rightarrow>
                         (let d = (case resolvedData of Some r \<Rightarrow> Some r | None \<Rightarrow> localData)
                          in w1\<lparr>invoked := invoked w1
                                   @ map (\<lambda>cb. DirectCall cb url d) (deepLinkCallbacks h)\<rparr>))
               else w\<lparr>invoked := invoked w
                        @ map (\<lambda>cb. DirectCall cb url localData) (deepLinkCallbacks h)\<rparr>))"

text \<open>Registering a list of deferred callbacks one after the other.\<close>

fun register_deferred ::
  "callback list \<Rightarrow> DeepLinkHandler \<Rightarrow> world \<Rightarrow> DeepLinkHandler \<times> world" where
  "register_deferred [] h w = (h, w)"
| "register_deferred (cb # cbs) h w =
     (case onDeferredDeepLink cb h w of (h1, w1) \<Rightarrow> register_deferred cbs h1 w1)"

subsection \<open>models/config.ts\<close>

record LinkFortyConfig =
  config_baseUrl :: string
  config_apiKey :: "string option"
  debug :: "bool option"
  config_attributionWindowHours :: "real option"

definition LOCALHOST_HOSTS :: "string list" where
  "LOCALHOST_HOSTS = [''localhost'', ''127.0.0.1'', ''0.0.0.0'', ''10.0.2.2'']"

text \<open>
  \<open>validateConfig\<close> returns the error it throws, if any. \<open>new URL\<close> is a parameter that
  gives the protocol and the host name of a URL it accepts. Every real is finite.
\<close>

definition validateConfig ::
  "(string \<Rightarrow> (string \<times> string) option) \<Rightarrow> LinkFortyConfig \<Rightarrow> Error option" where
  "validateConfig newURL config =
     (if config_baseUrl config = [] then Some (invalidConfiguration ''baseUrl is required'')
      else (case newURL (config_baseUrl config) of
              None \<Rightarrow>
                Some (invalidConfiguration (''Invalid base URL: '' @ config_baseUrl config))
            | Some (protocol, hostname) \<Rightarrow>
                if protocol \<noteq> ''https:'' \<and> hostname \<notin> set LOCALHOST_HOSTS
                then Some (invalidConfiguration
                             ''Base URL must use HTTPS (HTTP only allowed for localhost)'')
                else (case config_attributionWindowHours config of
                        None \<Rightarrow> None
                      | Some windowHours \<Rightarrow>
                          if windowHours < 1 \<or> windowHours > 2160
                          then Some (invalidConfiguration
                                       ''Attribution window must be between 1 and 2160 hours'')
                          else None)))"

subsection \<open>linkforty-sdk.ts\<close>

text \<open>
  The facade holds its components or \<open>null\<close>. An \<open>AttributionManager\<close> has no state of
  its own; of an \<open>EventTracker\<close> the model keeps its queue. The methods of the facade
  carry the suffix \<open>_sdk\<close> where a component has a method of the same name.
\<close>

record LinkFortySDK =
  config :: "LinkFortyConfig option"
  networkManager :: "NetworkManager option"
  attributionManager :: "unit option"
  deepLinkHandler :: "DeepLinkHandler option"
  eventTracker :: "EventQueue option"
  isInitialized :: bool

definition new_LinkFortySDK :: LinkFortySDK where
  "new_LinkFortySDK =
     \<lparr>config = None, networkManager = None, attributionManager = None,
      deepLinkHandler = None, eventTracker = None, isInitialized = False\<rparr>"

text \<open>What the facade takes from outside: the parameters of its components.\<close>

record env =
  env_keys :: STORAGE_KEYS
  env_json :: JSON
  env_network :: Network
  env_collect :: collector
  env_newURL :: "string \<Rightarrow> (string \<times> string) option"
  env_parseDeepLinkUrl :: "string \<Rightarrow> string \<Rightarrow> DeepLinkData option"
  env_resolveUrl :: "string \<Rightarrow> world \<Rightarrow> DeepLinkData option \<times> world"

definition requireInitialized :: "LinkFortySDK \<Rightarrow> Error + unit" where
  "requireInitialized s = (if \<not> isInitialized s then Inl notInitialized else Inr ())"

definition requireDeepLinkHandler :: "LinkFortySDK \<Rightarrow> Error + DeepLinkHandler" where
  "requireDeepLinkHandler s =
     (if \<not> isInitialized s then Inl notInitialized
      else (case deepLinkHandler s of None \<Rightarrow> Inl notInitialized | Some h \<Rightarrow> Inr h))"

definition requireEventTracker :: "LinkFortySDK \<Rightarrow> Error + EventQueue" where
  "requireEventTracker s =
     (if \<not> isInitialized s then Inl notInitialized
      else (case eventTracker s of None \<Rightarrow> Inl notInitialized | Some q \<Rightarrow> Inr q))"

text \<open>
  \<open>initialize\<close> sets \<open>_isInitialized\<close> before it reports the install, so a rejection of
  \<open>reportInstall\<close> leaves the components in place.
\<close>

definition initialize ::
  "env \<Rightarrow> LinkFortyConfig \<Rightarrow> LinkFortySDK \<Rightarrow> world
     \<Rightarrow> (Error + InstallAttributionResponse) \<times> LinkFortySDK \<times> world" where
  "initialize E c s w =
     (if isInitialized s then (Inl alreadyInitialized, s, w)
      else (case validateConfig (env_newURL E) c of
              Some e \<Rightarrow> (Inl e, s, w)
            | None \<Rightarrow>
                (let eventQueue = load (env_keys E) (env_json E) new_EventQueue (storage w);
                     handler = new_DeepLinkHandler (config_baseUrl c);
                     s1 = s\<lparr>config := Some c,
                            networkManager :=
                              Some (new_NetworkManager (config_baseUrl c) (config_apiKey c)),
                            attributionManager := Some (),
                            eventTracker := Some eventQueue,
                            deepLinkHandler := Some handler,
                            isInitialized := True\<rparr>;
                     attributionWindowHours =
                       (case config_attributionWindowHours c of None \<Rightarrow> 168 | Some h \<Rightarrow> h)
                 in case reportInstall (env_keys E) (env_json E) (env_network E) (env_collect E)
                           attributionWindowHours None w of
                      (Inl e, w1) \<Rightarrow> (Inl e, s1, w1)
                    | (Inr response, w1) \<Rightarrow>
                        (case deliverDeferredDeepLink
                                (if attributed response \<and> deepLinkData response \<noteq> None
                                 then deepLinkData response else None) handler w1 of
                           (h1, w2) \<Rightarrow>
                             (Inr response,
                              s1\<lparr>deepLinkHandler := Some (startListening h1)\<rparr>, w2)))))"

definition onDeferredDeepLink_sdk ::
  "callback \<Rightarrow> LinkFortySDK \<Rightarrow> world \<Rightarrow> (Error + unit) \<times> LinkFortySDK \<times> world" where
  "onDeferredDeepLink_sdk cb s w =
     (case requireDeepLinkHandler s of
        Inl e \<Rightarrow> (Inl e, s, w)
      | Inr h \<Rightarrow>
          (case onDeferredDeepLink cb h w of
             (h1, w1) \<Rightarrow> (Inr (), s\<lparr>deepLinkHandler := Some h1\<rparr>, w1)))"

definition onDeepLink_sdk ::
  "callback \<Rightarrow> LinkFortySDK \<Rightarrow> world \<Rightarrow> (Error + unit) \<times> LinkFortySDK \<times> world" where
  "onDeepLink_sdk cb s w =
     (case requireDeepLinkHandler s of
        Inl e \<Rightarrow> (Inl e, s, w)
      | Inr h \<Rightarrow> (Inr (), s\<lparr>deepLinkHandler := Some (onDeepLink cb h)\<rparr>, w))"

definition handleDeepLink_sdk ::
  "env \<Rightarrow> string \<Rightarrow> LinkFortySDK \<Rightarrow> world \<Rightarrow> (Error + unit) \<times> LinkFortySDK \<times> world" where
  "handleDeepLink_sdk E url s w =
     (case requireDeepLinkHandler s of
        Inl e \<Rightarrow> (Inl e, s, w)
      | Inr h \<Rightarrow> (Inr (), s, handleUrl (env_parseDeepLinkUrl E) (env_resolveUrl E) url h w))"

definition trackEvent_sdk ::
  "env \<Rightarrow> string \<Rightarrow> string \<Rightarrow> properties option \<Rightarrow> LinkFortySDK \<Rightarrow> world
     \<Rightarrow> (Error + unit) \<times> LinkFortySDK \<times> world" where
  "trackEvent_sdk E now name props s w =
     (case requireEventTracker s of
        Inl e \<Rightarrow> (Inl e, s, w)
      | Inr q \<Rightarrow>
          (case trackEvent (env_keys E) (env_json E) (env_network E) now name props q w of
             (res, q1, w1) \<Rightarrow> (res, s\<lparr>eventTracker := Some q1\<rparr>, w1)))"

definition trackRevenue_sdk ::
  "env \<Rightarrow> string \<Rightarrow> real \<Rightarrow> string \<Rightarrow> properties option \<Rightarrow> LinkFortySDK \<Rightarrow> world
     \<Rightarrow> (Error + unit) \<times> LinkFortySDK \<times> world" where
  "trackRevenue_sdk E now amount currency props s w =
     (case requireEventTracker s of
        Inl e \<Rightarrow> (Inl e, s, w)
      | Inr q \<Rightarrow>
          (case trackRevenue (env_keys E) (env_json E) (env_network E) now amount currency props q w of
             (res, q1, w1) \<Rightarrow> (res, s\<lparr>eventTracker := Some q1\<rparr>, w1)))"

definition flushEvents ::
  "env \<Rightarrow> LinkFortySDK \<Rightarrow> world \<Rightarrow> (Error + unit) \<times> LinkFortySDK \<times> world" where
  "flushEvents E s w =
     (case requireEventTracker s of
        Inl e \<Rightarrow> (Inl e, s, w)
      | Inr q \<Rightarrow>
          (case flushQueue (env_keys E) (env_json E) (env_network E) q w of
             (q1, w1) \<Rightarrow> (Inr (), s\<lparr>eventTracker := Some q1\<rparr>, w1)))"

definition clearEventQueue ::
  "env \<Rightarrow> LinkFortySDK \<Rightarrow> world \<Rightarrow> (Error + unit) \<times> LinkFortySDK \<times> world" where
  "clearEventQueue E s w =
     (case requireEventTracker s of
        Inl e \<Rightarrow> (Inl e, s, w)
      | Inr q \<Rightarrow>
          (case clearQueue (env_keys E) (env_json E) q w of
             (q1, w1) \<Rightarrow> (Inr (), s\<lparr>eventTracker := Some q1\<rparr>, w1)))"

definition queuedEventCount_sdk :: "LinkFortySDK \<Rightarrow> nat" where
  "queuedEventCount_sdk s = (case eventTracker s of None \<Rightarrow> 0 | Some q \<Rightarrow> queuedEventCount q)"

text \<open>
  \<open>create-link-options.ts\<close> and the shape of \<open>CreateLinkResult\<close>. A string is truthy
  when it is present and not empty; \<open>a || b\<close> is \<open>a\<close> when \<open>a\<close> is truthy and \<open>b\<close>
  otherwise; an absent value reads \<open>undefined\<close> in a template literal.
\<close>

record CreateLinkOptions =
  templateId :: "string option"
  templateSlug :: "string option"
  options_deepLinkParameters :: "(string \<times> string) list option"
  title :: "string option"
  description :: "string option"
  customCode :: "string option"
  options_utmParameters :: "UTMParameters option"

record CreateLinkResult =
  result_url :: string
  result_shortCode :: "string option"
  result_linkId :: "string option"

definition truthy :: "string option \<Rightarrow> bool" where
  "truthy x = (case x of None \<Rightarrow> False | Some t \<Rightarrow> t \<noteq> [])"

definition orElse :: "string option \<Rightarrow> string option \<Rightarrow> string option" where
  "orElse a b = (if truthy a then a else b)"

definition ifTruthy :: "string option \<Rightarrow> string option" where
  "ifTruthy x = (if truthy x then x else None)"

definition interpolate :: "string option \<Rightarrow> string" where
  "interpolate x = (case x of None \<Rightarrow> ''undefined'' | Some t \<Rightarrow> t)"

text \<open>
  \<open>this.config!\<close> and \<open>this.networkManager!\<close> on \<open>null\<close> are a \<open>TypeError\<close>.
\<close>

definition createLink ::
  "env \<Rightarrow> CreateLinkOptions \<Rightarrow> LinkFortySDK \<Rightarrow> world \<Rightarrow> (Error + CreateLinkResult) \<times> world" where
  "createLink E options s w =
     (case requireInitialized s of
        Inl e \<Rightarrow> (Inl e, w)
      | Inr u \<Rightarrow>
          (case config s of
             None \<Rightarrow> (Inl (Error ''TypeError''), w)
           | Some c \<Rightarrow>
               if \<not> truthy (config_apiKey c) then (Inl missingApiKey, w)
               else (let body = \<lparr>body_templateId = ifTruthy (templateId options),
                                   body_deepLinkParameters = options_deepLinkParameters options,
                                   body_title = ifTruthy (title options),
                                   body_description = ifTruthy (description options),
                                   body_customCode = ifTruthy (customCode options),
                                   body_utmParameters = options_utmParameters options\<rparr>;
                         useSimplifiedEndpoint = (\<not> truthy (templateId options));
                         endpoint = (if useSimplifiedEndpoint then ''/api/sdk/v1/links''
                                     else ''/api/links'')
                     in case networkManager s of
                          None \<Rightarrow> (Inl (Error ''TypeError''), w)
                        | Some m \<Rightarrow>
                            (let w1 = w\<lparr>requests := requests w @ [(endpoint, CreateLinkBody body)]\<rparr>
                             in case link_reply (env_network E) (length (requests w)) of
                                  Inl e \<Rightarrow> (Inl e, w1)
                                | Inr response \<Rightarrow>
                                    if useSimplifiedEndpoint \<and> truthy (link_url response)
                                    then (Inr \<lparr>result_url = interpolate (link_url response),
                                               result_shortCode =
                                                 orElse (link_shortCode response)
                                                   (link_short_code response),
                                               result_linkId =
                                                 orElse (link_linkId response) (link_id response)\<rparr>,
                                          w1)
                                    else (let shortCode = link_short_code response;
                                              base = stripTrailingSlashes (config_baseUrl c);
                                              url = (if truthy (templateSlug options)
                                                     then base @ ''/''
                                                            @ interpolate (templateSlug options)
                                                            @ ''/'' @ interpolate shortCode
                                                     else base @ ''/'' @ interpolate shortCode)
                                          in (Inr \<lparr>result_url = url,
                                                    result_shortCode = shortCode,
                                                    result_linkId = link_id response\<rparr>, w1))))))"

definition getInstallId_sdk :: "env \<Rightarrow> LinkFortySDK \<Rightarrow> world \<Rightarrow> Error + string option" where
  "getInstallId_sdk E s w =
     (case attributionManager s of
        None \<Rightarrow> Inr None
      | Some m \<Rightarrow> getInstallId (env_keys E) (storage w))"

definition getInstallData_sdk ::
  "env \<Rightarrow> LinkFortySDK \<Rightarrow> world \<Rightarrow> Error + DeepLinkData option" where
  "getInstallData_sdk E s w =
     (case attributionManager s of
        None \<Rightarrow> Inr None
      | Some m \<Rightarrow> Inr (getInstallData (env_keys E) (env_json E) (storage w)))"

definition isFirstLaunch_sdk :: "env \<Rightarrow> LinkFortySDK \<Rightarrow> world \<Rightarrow> Error + bool" where
  "isFirstLaunch_sdk E s w =
     (case attributionManager s of
        None \<Rightarrow> Inr True
      | Some m \<Rightarrow> isFirstLaunch (env_keys E) (storage w))"

definition clearData_sdk ::
  "env \<Rightarrow> LinkFortySDK \<Rightarrow> world \<Rightarrow> (Error + unit) \<times> LinkFortySDK \<times> world" where
  "clearData_sdk E s w =
     (case (case attributionManager s of
              None \<Rightarrow> (Inr (), w)
            | Some m \<Rightarrow> clearData (env_keys E) w) of
        (Inl e, w1) \<Rightarrow> (Inl e, s, w1)
      | (Inr u, w1) \<Rightarrow>
          (case (case eventTracker s of
                   None \<Rightarrow> (None, w1)
                 | Some q \<Rightarrow>
                     (case clearQueue (env_keys E) (env_json E) q w1 of
                        (q1, w2) \<Rightarrow> (Some q1, w2))) of
             (tracker, w2) \<Rightarrow>
               (Inr (),
                s\<lparr>eventTracker := tracker,
                  deepLinkHandler := map_option clearCallbacks (deepLinkHandler s)\<rparr>,
                w2)))"

definition reset :: "LinkFortySDK \<Rightarrow> LinkFortySDK" where
  "reset s =
     s\<lparr>config := None, networkManager := None, attributionManager := None,
       deepLinkHandler := None, eventTracker := None, isInitialized := False\<rparr>"

text \<open>
  The calls an application can make on the facade, and the state after a sequence of
  them, whatever they returned.
\<close>

datatype sdk_call =
    Initialize LinkFortyConfig
  | OnDeferredDeepLink callback
  | OnDeepLink callback
  | HandleDeepLink string
  | TrackEvent string string "properties option"
  | TrackRevenue string real string "properties option"
  | FlushEvents
  | ClearEventQueue
  | CreateLink CreateLinkOptions
  | ClearData
  | Reset

fun call :: "env \<Rightarrow> sdk_call \<Rightarrow> LinkFortySDK \<times> world \<Rightarrow> LinkFortySDK \<times> world" where
  "call E (Initialize c) (s, w) = snd (initialize E c s w)"
| "call E (OnDeferredDeepLink cb) (s, w) = snd (onDeferredDeepLink_sdk cb s w)"
| "call E (OnDeepLink cb) (s, w) = snd (onDeepLink_sdk cb s w)"
| "call E (HandleDeepLink url) (s, w) = snd (handleDeepLink_sdk E url s w)"
| "call E (TrackEvent now name props) (s, w) = snd (trackEvent_sdk E now name props s w)"
| "call E (TrackRevenue now amount currency props) (s, w) =
     snd (trackRevenue_sdk E now amount currency props s w)"
| "call E FlushEvents (s, w) = snd (flushEvents E s w)"
| "call E ClearEventQueue (s, w) = snd (clearEventQueue E s w)"
| "call E (CreateLink options) (s, w) = (s, snd (createLink E options s w))"
| "call E ClearData (s, w) = snd (clearData_sdk E s w)"
| "call E Reset (s, w) = (reset s, w)"

fun calls :: "env \<Rightarrow> sdk_call list \<Rightarrow> LinkFortySDK \<times> world \<Rightarrow> LinkFortySDK \<times> world" where
  "calls E [] x = x"
| "calls E (c # cs) x = calls E cs (call E c x)"

subsection \<open>Test fixtures\<close>

text \<open>
  Concrete inputs, after the repository's tests: the key strings the tests write to the
  store directly and two more of the same form, \<open>makeEvent\<close> of the queue's test, an
  empty store and one that holds an install id, a network that rejects every call and
  one that rejects the second call only, and a small stand-in for \<open>JSON\<close> that
  renders the empty queue as \<open>[]\<close> and a link by its short code.
\<close>

definition test_keys :: STORAGE_KEYS where
  "test_keys = \<lparr>INSTALL_ID = ''@linkforty:install_id'', INSTALL_DATA = ''@linkforty:install_data'',
       FIRST_LAUNCH = ''@linkforty:first_launch'', EVENT_QUEUE = ''@linkforty:event_queue''\<rparr>"

definition short_link :: "string \<Rightarrow> DeepLinkData" where
  "short_link c = \<lparr>shortCode = c, iosUrl = None, androidUrl = None, webUrl = None,
       utmParameters = None, customParameters = None, deepLinkPath = None, appScheme = None,
       clickedAt = None, linkId = None, deepLinkParameters = None\<rparr>"

definition test_JSON :: JSON where
  "test_JSON = \<lparr>stringify_queue = (\<lambda>q. if q = [] then ''[]'' else ''[...]''),
       parse_queue = (\<lambda>s. if s = ''[]'' then Some [] else None),
       stringify_data = shortCode,
       parse_data = (\<lambda>s. if s = ''null'' then Some None else Some (Some (short_link s)))\<rparr>"

definition makeEvent :: "string \<Rightarrow> EventRequest" where
  "makeEvent name = \<lparr>installId = ''install-1'', eventName = name, eventData = [],
       timestamp = ''2026-01-01T00:00:00.000Z''\<rparr>"

definition empty_storage :: AsyncStorage where
  "empty_storage = \<lparr>items = Map.empty, read_error = None, write_error = None\<rparr>"

definition stored_id :: AsyncStorage where
  "stored_id = \<lparr>items = [''@linkforty:install_id'' \<mapsto> ''install-1''],
       read_error = None, write_error = None\<rparr>"

definition offline :: Network where
  "offline = \<lparr>event_reply = (\<lambda>i. Some (Error ''Network error'')),
       install_reply = (\<lambda>i. Inl (Error ''Network down'')),
       link_reply = (\<lambda>i. Inl (Error ''Network down''))\<rparr>"

definition second_send_fails :: Network where
  "second_send_fails = \<lparr>event_reply = (\<lambda>i. if i = 1 then Some (Error ''Network error'') else None),
       install_reply = (\<lambda>i. Inl (Error ''Network down'')),
       link_reply = (\<lambda>i. Inl (Error ''Network down''))\<rparr>"

definition three_queued :: EventQueue where
  "three_queued = \<lparr>queue = [makeEvent ''a'', makeEvent ''b'', makeEvent ''c''], loaded = True\<rparr>"

definition full_queue :: EventQueue where
  "full_queue = \<lparr>queue = replicate 100 (makeEvent ''old''), loaded = True\<rparr>"

definition start_world :: world where
  "start_world = \<lparr>storage = stored_id, requests = [], invoked = []\<rparr>"

text \<open>
  For the transport: the manager and the responses of its tests, a server that always
  answers 500, one that always answers 404, one that answers 500 twice and then 200, and
  a connection on which every \<open>fetch\<close> is rejected.
\<close>

definition test_manager :: NetworkManager where
  "test_manager = new_NetworkManager ''https://go.example.com'' (Some ''test-api-key'')"

definition no_options :: RequestInit where
  "no_options = \<lparr>request_method = None, request_body = None, headers = []\<rparr>"

definition server_error :: "string Response" where
  "server_error = \<lparr>status = 500, response_json = Json (Some ''Server error'') None []\<rparr>"

definition not_found :: "string Response" where
  "not_found = \<lparr>status = 404, response_json = Json (Some ''Not found'') None []\<rparr>"

definition success :: "string Response" where
  "success = \<lparr>status = 200, response_json = Json None None ''{success: true}''\<rparr>"

definition always_500 :: "nat \<Rightarrow> string FetchResult" where
  "always_500 i = Resolved server_error"

definition always_404 :: "nat \<Rightarrow> string FetchResult" where
  "always_404 i = Resolved not_found"

definition third_succeeds :: "nat \<Rightarrow> string FetchResult" where
  "third_succeeds i = (if i < 2 then Resolved server_error else Resolved success)"

definition connection_lost :: "nat \<Rightarrow> string FetchResult" where
  "connection_lost i = Rejected (Error ''Network request failed'')"

text \<open>
  For the deep-link handler and the attribution manager: a handler, a world with an empty
  store, a store that holds a queue, a store left by an earlier launch, the fingerprint
  of the collector's test, and a server that attributes the install.
\<close>

definition test_handler :: DeepLinkHandler where
  "test_handler = new_DeepLinkHandler ''https://go.example.com''"

definition empty_world :: world where
  "empty_world = \<lparr>storage = empty_storage, requests = [], invoked = []\<rparr>"

definition queued_storage :: AsyncStorage where
  "queued_storage =
     \<lparr>items = [''@linkforty:install_id'' \<mapsto> ''install-1'', ''@linkforty:event_queue'' \<mapsto> ''[...]'',
               ''other'' \<mapsto> ''kept''],
      read_error = None, write_error = None\<rparr>"

definition queued_world :: world where
  "queued_world = \<lparr>storage = queued_storage, requests = [], invoked = []\<rparr>"


definition test_collector :: collector where
  "test_collector hours device =
     Inr \<lparr>userAgent = ''TestApp/1.0.0 ios/17.4'', timezone = ''America/New_York'',
          language = ''en-US'', screenWidth = 393, screenHeight = 852, platform = ''ios'',
          platformVersion = ''17.4'', appVersion = ''1.0.0'', deviceId = device,
          attributionWindowHours = hours\<rparr>"

definition attributed_response :: InstallAttributionResponse where
  "attributed_response =
     \<lparr>response_installId = ''attr-id'', attributed = True, confidenceScore = 85,
      matchedFactors = [''ip'', ''user_agent''], deepLinkData = Some (short_link ''abc123'')\<rparr>"

definition attributing :: Network where
  "attributing = \<lparr>event_reply = (\<lambda>i. None), install_reply = (\<lambda>i. Inr attributed_response),
       link_reply = (\<lambda>i. Inl (Error ''Network down''))\<rparr>"

text \<open>
  For the facade: an environment made of the fixtures above, with a \<open>new URL\<close> that
  knows two addresses, and the configuration and link options of the facade's tests.
\<close>

definition test_env :: env where
  "test_env =
     \<lparr>env_keys = test_keys, env_json = test_JSON, env_network = attributing,
      env_collect = test_collector,
      env_newURL = (\<lambda>u. if u = ''https://go.example.com'' then Some (''https:'', ''go.example.com'')
                         else if u = ''http://go.example.com'' then Some (''http:'', ''go.example.com'')
                         else None),
      env_parseDeepLinkUrl = (\<lambda>url base. None),
      env_resolveUrl = (\<lambda>url w. (None, w))\<rparr>"

definition validConfig :: LinkFortyConfig where
  "validConfig = \<lparr>config_baseUrl = ''https://go.example.com'', config_apiKey = None,
       debug = Some False, config_attributionWindowHours = None\<rparr>"

definition no_link_options :: CreateLinkOptions where
  "no_link_options = \<lparr>templateId = None, templateSlug = None, options_deepLinkParameters = None,
       title = None, description = None, customCode = None, options_utmParameters = None\<rparr>"

text \<open>
  A world whose store rejects every read, a configuration that config validation
  rejects, and the facade as an \<open>initialize\<close> with \<open>validConfig\<close> leaves it when
  \<open>reportInstall\<close> rejects.
\<close>

definition unreadable_world :: world where
  "unreadable_world =
     \<lparr>storage = \<lparr>items = Map.empty, read_error = Some (Error ''Storage unavailable''),
                 write_error = None\<rparr>,
      requests = [], invoked = []\<rparr>"

definition httpConfig :: LinkFortyConfig where
  "httpConfig = \<lparr>config_baseUrl = ''http://go.example.com'', config_apiKey = None,
       debug = None, config_attributionWindowHours = None\<rparr>"

definition half_initialized :: LinkFortySDK where
  "half_initialized =
     \<lparr>config = Some validConfig,
      networkManager = Some (new_NetworkManager ''https://go.example.com'' None),
      attributionManager = Some (),
      deepLinkHandler = Some (new_DeepLinkHandler ''https://go.example.com''),
      eventTracker = Some \<lparr>queue = [], loaded = True\<rparr>,
      isInitialized = True\<rparr>"

section \<open>Properties\<close>

subsection \<open>The offline queue\<close>

lemma load_idem [simp]: "load K J (load K J q st) st' = load K J q st"
  by (simp add: load_loaded loaded_load)

lemma enqueue_loaded: "loaded (fst (snd (enqueue K J e q st)))"
  by (simp add: enqueue_def Let_def loaded_load)

lemma enqueue_count:
  "count (load K J q st) \<le> MAX_QUEUE_SIZE \<Longrightarrow>
   count (fst (snd (enqueue K J e q st))) \<le> MAX_QUEUE_SIZE"
  by (simp add: enqueue_def Let_def count_def)

lemma dequeue_loaded: "loaded (fst (snd (dequeue K J q st)))"
  by (simp add: dequeue_def Let_def loaded_load split: list.splits)

lemma dequeue_count:
  "count (fst (snd (dequeue K J q st))) \<le> count (load K J q st)"
  by (simp add: dequeue_def Let_def count_def split: list.splits)

lemma within_capacity_loaded:
  "loaded q \<Longrightarrow> within_capacity K J (q, st) = (count q \<le> MAX_QUEUE_SIZE)"
  by (simp add: within_capacity_def load_loaded)

lemma clear_within:
  assumes rt: "parse_queue J (stringify_queue J []) = Some []"
      and inv: "within_capacity K J (q, st)"
  shows "within_capacity K J (clear K J q st)"
proof (cases "loaded q")
  case True
  then show ?thesis
    by (simp add: clear_def Let_def within_capacity_def load_def count_def)
next
  case False
  show ?thesis
  proof (cases "write_error st")
    case None
    then show ?thesis using rt False
      by (simp add: clear_def Let_def within_capacity_def load_def count_def persist_def
          setItem_def getItem_def split: option.splits)
  next
    case (Some e)
    then show ?thesis using inv False
      by (auto simp add: clear_def Let_def within_capacity_def load_def count_def persist_def
          setItem_def getItem_def split: option.splits sum.splits if_splits)
  qed
qed

lemma apply_op_within:
  assumes rt: "parse_queue J (stringify_queue J []) = Some []"
      and inv: "within_capacity K J s"
  shows "within_capacity K J (apply_op K J x s)"
proof (cases s)
  case (Pair q st)
  show ?thesis
  proof (cases x)
    case Load
    with Pair inv show ?thesis by (simp add: within_capacity_def)
  next
    case (Enqueue e)
    obtain b q' st' where r: "enqueue K J e q st = (b, q', st')" by (cases "enqueue K J e q st")
    have "loaded q'" using enqueue_loaded [of K J e q st] r by simp
    moreover have "count q' \<le> MAX_QUEUE_SIZE"
      using enqueue_count [of K J q st e] inv Pair r by (simp add: within_capacity_def)
    ultimately show ?thesis using Pair Enqueue r by (simp add: within_capacity_loaded)
  next
    case Dequeue
    obtain b q' st' where r: "dequeue K J q st = (b, q', st')" by (cases "dequeue K J q st")
    have "loaded q'" using dequeue_loaded [of K J q st] r by simp
    moreover have "count q' \<le> MAX_QUEUE_SIZE"
      using dequeue_count [of K J q st] inv Pair r by (simp add: within_capacity_def)
    ultimately show ?thesis using Pair Dequeue r by (simp add: within_capacity_loaded)
  next
    case Clear
    with Pair clear_within [OF rt, of K q st] inv show ?thesis by simp
  qed
qed

lemma run_ops_within:
  assumes rt: "parse_queue J (stringify_queue J []) = Some []"
  shows "within_capacity K J s \<Longrightarrow> within_capacity K J (run_ops K J xs s)"
  by (induction xs arbitrary: s) (simp_all add: apply_op_within [OF rt])

lemma enqueue_all_room:
  "loaded q \<Longrightarrow> length (queue q) + length es \<le> MAX_QUEUE_SIZE \<Longrightarrow>
     fst (enqueue_all K J es q st) = replicate (length es) True \<and>
     queue (fst (snd (enqueue_all K J es q st))) = queue q @ es \<and>
     loaded (fst (snd (enqueue_all K J es q st)))"
proof (induction es arbitrary: q st)
  case Nil
  then show ?case by simp
next
  case (Cons e es)
  let ?q1 = "q\<lparr>queue := queue q @ [e]\<rparr>"
  have e1: "enqueue K J e q st = (True, ?q1, persist K J ?q1 st)"
    using Cons.prems by (simp add: enqueue_def Let_def load_loaded)
  have "loaded ?q1" "length (queue ?q1) + length es \<le> MAX_QUEUE_SIZE"
    using Cons.prems by simp_all
  from Cons.IH [OF this, of "persist K J ?q1 st"] e1 show ?case
    by (auto split: prod.splits)
qed

lemma enqueue_full:
  "MAX_QUEUE_SIZE \<le> length (queue (load K J q st)) \<Longrightarrow>
     enqueue K J e q st = (False, load K J q st, st)"
  by (simp add: enqueue_def Let_def)


lemma enqueue_load: "enqueue K J e (load K J q st) st = enqueue K J e q st"
  by (simp add: enqueue_def)

lemma enqueue_all_load:
  "es \<noteq> [] \<Longrightarrow> enqueue_all K J es (load K J q st) st = enqueue_all K J es q st"
  by (cases es) (simp_all add: enqueue_load)

text \<open>
  C6. Starting from a queue within capacity, the queue holds at most 100 records after
  any sequence of \<open>load\<close>, \<open>enqueue\<close>, \<open>dequeue\<close> and \<open>clear\<close> (given that the
  text written for the empty queue parses back to the empty queue). Enqueueing 100 records
  into an empty queue returns \<open>true\<close> 100 times and leaves exactly these records, in
  order; the 101st \<open>enqueue\<close> returns \<open>false\<close> and changes neither the queue nor the
  store.
\<close>

theorem queue_capacity:
  "(parse_queue J (stringify_queue J []) = Some [] \<longrightarrow> within_capacity K J (q, st) \<longrightarrow>
      count (fst (run_ops K J ops (q, st))) \<le> MAX_QUEUE_SIZE) \<and>
   (queue (load K J q st) = [] \<longrightarrow> length es = MAX_QUEUE_SIZE \<longrightarrow>
      (case enqueue_all K J es q st of
         (added, q1, st1) \<Rightarrow>
           added = replicate MAX_QUEUE_SIZE True \<and> queue q1 = es \<and>
           enqueue K J e q1 st1 = (False, q1, st1)))"
proof (intro conjI impI)
  assume rt: "parse_queue J (stringify_queue J []) = Some []"
     and inv: "within_capacity K J (q, st)"
  from run_ops_within [OF rt inv, of ops]
  show "count (fst (run_ops K J ops (q, st))) \<le> MAX_QUEUE_SIZE"
    by (cases "run_ops K J ops (q, st)") (simp add: within_capacity_def)
next
  assume em: "queue (load K J q st) = []" and len: "length es = MAX_QUEUE_SIZE"
  from len have ne: "es \<noteq> []" by (auto simp: MAX_QUEUE_SIZE_def)
  obtain added q1 st1 where r: "enqueue_all K J es q st = (added, q1, st1)"
    by (cases "enqueue_all K J es q st")
  have "loaded (load K J q st)" by (rule loaded_load)
  moreover have "length (queue (load K J q st)) + length es \<le> MAX_QUEUE_SIZE"
    using em len by simp
  ultimately have a: "added = replicate (length es) True \<and> queue q1 = es \<and> loaded q1"
    using enqueue_all_room [of "load K J q st" es K J st] enqueue_all_load [OF ne, of K J q st] r em
    by simp
  then have "enqueue K J e q1 st1 = (False, q1, st1)"
    using enqueue_full [of K J q1 st1 e] len by (simp add: load_loaded)
  with a r len show "case enqueue_all K J es q st of
         (added, q1, st1) \<Rightarrow>
           added = replicate MAX_QUEUE_SIZE True \<and> queue q1 = es \<and>
           enqueue K J e q1 st1 = (False, q1, st1)"
    by simp
qed

theorem queue_capacity_witness:
  "count (fst (run_ops test_keys test_JSON [Enqueue (makeEvent ''a''), Clear, Load, Dequeue]
             (new_EventQueue, empty_storage))) \<le> MAX_QUEUE_SIZE \<and>
   (case enqueue_all test_keys test_JSON (replicate 100 (makeEvent ''a'')) new_EventQueue
           empty_storage of
      (added, q1, st1) \<Rightarrow>
        added = replicate MAX_QUEUE_SIZE True \<and> queue q1 = replicate 100 (makeEvent ''a'') \<and>
        enqueue test_keys test_JSON (makeEvent ''overflow'') q1 st1 = (False, q1, st1))"
proof -
  have h1: "parse_queue test_JSON (stringify_queue test_JSON []) = Some []"
    by (simp add: test_JSON_def)
  have h2: "within_capacity test_keys test_JSON (new_EventQueue, empty_storage)"
    by (simp add: within_capacity_def new_EventQueue_def empty_storage_def load_def getItem_def
        count_def)
  have h3: "queue (load test_keys test_JSON new_EventQueue empty_storage) = []"
    by (simp add: new_EventQueue_def empty_storage_def load_def getItem_def)
  have h4: "length (replicate 100 (makeEvent ''a'')) = MAX_QUEUE_SIZE"
    by (simp add: MAX_QUEUE_SIZE_def)
  show ?thesis
    using queue_capacity [of test_JSON test_keys new_EventQueue empty_storage
        "[Enqueue (makeEvent ''a''), Clear, Load, Dequeue]" "replicate 100 (makeEvent ''a'')"
        "makeEvent ''overflow''"] h1 h2 h3 h4
    by simp
qed


subsection \<open>Flushing the queue\<close>

lemma flushLoop_Nil: "queue q = [] \<Longrightarrow> flushLoop K J N q w = (None, q, w)"
  by (simp add: flushLoop.simps isEmpty_def)

lemma dequeue_Cons:
  "loaded q \<Longrightarrow> queue q = e # rest \<Longrightarrow>
     dequeue K J q st = (Some e, q\<lparr>queue := rest\<rparr>, persist K J (q\<lparr>queue := rest\<rparr>) st)"
  by (simp add: dequeue_def load_loaded Let_def)

lemma flushLoop_sent:
  assumes "loaded q" "queue q = e # rest" "event_reply N (length (requests w)) = None"
  shows "flushLoop K J N q w =
           flushLoop K J N (q\<lparr>queue := rest\<rparr>)
             (w\<lparr>storage := persist K J (q\<lparr>queue := rest\<rparr>) (storage w),
                requests := requests w @ [event_call e]\<rparr>)"
  using assms
  by (subst flushLoop.simps)
     (simp add: isEmpty_def dequeue_Cons sendEvent_def Let_def)

lemma flushLoop_failed:
  assumes "loaded q" "queue q = e # rest" "event_reply N (length (requests w)) = Some err"
  shows "flushLoop K J N q w =
           (case enqueue K J e (q\<lparr>queue := rest\<rparr>)
                   (persist K J (q\<lparr>queue := rest\<rparr>) (storage w)) of
              (added, q3, st3) \<Rightarrow>
                (Some added, q3, w\<lparr>storage := st3, requests := requests w @ [event_call e]\<rparr>))"
  using assms
  by (subst flushLoop.simps)
     (simp add: isEmpty_def dequeue_Cons sendEvent_def Let_def split: prod.splits)

text \<open>
  What the loop does to a loaded queue: either every send succeeds and the queue ends
  empty, or the send of the record at some index \<open>k\<close> is the first to fail, the records
  before it are gone, the records after it are never sent, and the failed record is put
  back at the tail if there is room.
\<close>

lemma flushLoop_outcome:
  "loaded q \<Longrightarrow> flushLoop K J N q w = (r, q', w') \<Longrightarrow>
     loaded q' \<and>
     (r = None \<longrightarrow> queue q' = [] \<and> requests w' = requests w @ map event_call (queue q) \<and>
        (\<forall>i < length (queue q). event_reply N (length (requests w) + i) = None)) \<and>
     (\<forall>added. r = Some added \<longrightarrow>
        (\<exists>k < length (queue q).
           (\<forall>i < k. event_reply N (length (requests w) + i) = None) \<and>
           event_reply N (length (requests w) + k) \<noteq> None \<and>
           requests w' = requests w @ map event_call (take (Suc k) (queue q)) \<and>
           added = (length (drop (Suc k) (queue q)) < MAX_QUEUE_SIZE) \<and>
           queue q' = (if added then drop (Suc k) (queue q) @ [queue q ! k]
                       else drop (Suc k) (queue q))))"
proof (induction "queue q" arbitrary: q w)
  case Nil
  then show ?case using flushLoop_Nil [of q K J N w] by auto
next
  case (Cons e rest)
  let ?q1 = "q\<lparr>queue := rest\<rparr>"
  let ?w1 = "w\<lparr>storage := persist K J ?q1 (storage w), requests := requests w @ [event_call e]\<rparr>"
  have qe: "queue q = e # rest" using Cons.hyps(2) by simp
  show ?case
  proof (cases "event_reply N (length (requests w))")
    case None
    have l1: "loaded ?q1" using Cons.prems(1) by simp
    have r1: "rest = queue ?q1" by simp
    have f: "flushLoop K J N ?q1 ?w1 = (r, q', w')"
      using flushLoop_sent [OF Cons.prems(1) qe None, of K J] Cons.prems(2) by simp
    note IH = Cons.hyps(1) [OF r1 l1 f]
    have a: "loaded q'" using IH by simp
    have b: "r = None \<longrightarrow> queue q' = [] \<and> requests w' = requests w @ map event_call (queue q) \<and>
        (\<forall>i < length (queue q). event_reply N (length (requests w) + i) = None)"
    proof
      assume rn: "r = None"
      with IH have 1: "queue q' = []" and 2: "requests w' = requests ?w1 @ map event_call rest"
        and 3: "\<forall>i < length rest. event_reply N (length (requests ?w1) + i) = None"
        by simp_all
      have "\<forall>i < length (queue q). event_reply N (length (requests w) + i) = None"
      proof (intro allI impI)
        fix i assume "i < length (queue q)"
        show "event_reply N (length (requests w) + i) = None"
        proof (cases i)
          case 0 then show ?thesis using None by simp
        next
          case (Suc j)
          with \<open>i < length (queue q)\<close> qe have "j < length rest" by simp
          with 3 Suc show ?thesis by simp
        qed
      qed
      with 1 2 qe show "queue q' = [] \<and> requests w' = requests w @ map event_call (queue q) \<and>
        (\<forall>i < length (queue q). event_reply N (length (requests w) + i) = None)" by simp
    qed
    have c: "\<forall>added. r = Some added \<longrightarrow>
        (\<exists>k < length (queue q).
           (\<forall>i < k. event_reply N (length (requests w) + i) = None) \<and>
           event_reply N (length (requests w) + k) \<noteq> None \<and>
           requests w' = requests w @ map event_call (take (Suc k) (queue q)) \<and>
           added = (length (drop (Suc k) (queue q)) < MAX_QUEUE_SIZE) \<and>
           queue q' = (if added then drop (Suc k) (queue q) @ [queue q ! k]
                       else drop (Suc k) (queue q)))"
    proof (intro allI impI)
      fix added assume "r = Some added"
      with IH obtain k where k: "k < length rest"
        "\<forall>i < k. event_reply N (length (requests ?w1) + i) = None"
        "event_reply N (length (requests ?w1) + k) \<noteq> None"
        "requests w' = requests ?w1 @ map event_call (take (Suc k) rest)"
        "added = (length (drop (Suc k) rest) < MAX_QUEUE_SIZE)"
        "queue q' = (if added then drop (Suc k) rest @ [rest ! k] else drop (Suc k) rest)"
        by auto
      have "\<forall>i < Suc k. event_reply N (length (requests w) + i) = None"
      proof (intro allI impI)
        fix i assume "i < Suc k"
        show "event_reply N (length (requests w) + i) = None"
        proof (cases i)
          case 0 then show ?thesis using None by simp
        next
          case (Suc j)
          with \<open>i < Suc k\<close> have "j < k" by simp
          with k(2) Suc show ?thesis by simp
        qed
      qed
      with k qe show "\<exists>k < length (queue q).
           (\<forall>i < k. event_reply N (length (requests w) + i) = None) \<and>
           event_reply N (length (requests w) + k) \<noteq> None \<and>
           requests w' = requests w @ map event_call (take (Suc k) (queue q)) \<and>
           added = (length (drop (Suc k) (queue q)) < MAX_QUEUE_SIZE) \<and>
           queue q' = (if added then drop (Suc k) (queue q) @ [queue q ! k]
                       else drop (Suc k) (queue q))"
        by (intro exI [of _ "Suc k"]) simp
    qed
    from a b c show ?thesis by blast
  next
    case (Some err)
    have l1: "loaded ?q1" using Cons.prems(1) by simp
    have f: "(r, q', w') = (case enqueue K J e ?q1 (persist K J ?q1 (storage w)) of
              (added, q3, st3) \<Rightarrow>
                (Some added, q3, w\<lparr>storage := st3, requests := requests w @ [event_call e]\<rparr>))"
      using flushLoop_failed [OF Cons.prems(1) qe Some, of K J] Cons.prems(2) by simp
    then show ?thesis using qe Some l1
      by (auto simp: enqueue_def Let_def load_loaded split: if_splits intro!: exI [of _ 0])
  qed
qed




lemma flushQueue_abc:
  assumes q: "queue (load K J q (storage w)) = [a, b, c]"
      and s0: "event_reply N (length (requests w)) = None"
      and s1: "event_reply N (Suc (length (requests w))) = Some err"
  shows "queue (fst (flushQueue K J N q w)) = [c, b] \<and>
         requests (snd (flushQueue K J N q w)) = requests w @ [event_call a, event_call b]"
proof -
  let ?q0 = "load K J q (storage w)"
  let ?q1 = "?q0\<lparr>queue := [b, c]\<rparr>"
  let ?w1 = "w\<lparr>storage := persist K J ?q1 (storage w), requests := requests w @ [event_call a]\<rparr>"
  have l0: "loaded ?q0" by (rule loaded_load)
  have 1: "flushLoop K J N ?q0 w = flushLoop K J N ?q1 ?w1"
    by (rule flushLoop_sent [OF l0 q s0])
  have l1: "loaded ?q1" using l0 by simp
  have q1: "queue ?q1 = [b, c]" by simp
  have s1': "event_reply N (length (requests ?w1)) = Some err" using s1 by simp
  note 2 = flushLoop_failed [OF l1 q1 s1', of K J]
  show ?thesis
    unfolding flushQueue_def 1 2
    by (simp add: enqueue_def Let_def load_loaded l0 MAX_QUEUE_SIZE_def split: prod.splits)
qed

text \<open>
  C5, as amended. On a queue of three records \<open>a\<close>, \<open>b\<close>, \<open>c\<close> where the first send
  succeeds and the second fails, \<open>flushQueue\<close> leaves the two records \<open>c\<close>, \<open>b\<close>: the
  record never attempted, then the failed one at the tail. Exactly the two requests for
  \<open>a\<close> and \<open>b\<close> are made.
\<close>

theorem flushQueue_second_send_fails:
  "queue (load K J q (storage w)) = [a, b, c] \<Longrightarrow>
   event_reply N (length (requests w)) = None \<Longrightarrow>
   event_reply N (Suc (length (requests w))) = Some err \<Longrightarrow>
     (case flushQueue K J N q w of
        (q', w') \<Rightarrow> queue q' = [c, b] \<and> requests w' = requests w @ [event_call a, event_call b])"
  using flushQueue_abc [of K J q w a b c N err] by (auto split: prod.splits)

theorem flushQueue_second_send_fails_witness:
  "queue (load test_keys test_JSON three_queued (storage start_world)) =
     [makeEvent ''a'', makeEvent ''b'', makeEvent ''c''] \<and>
   event_reply second_send_fails (length (requests start_world)) = None \<and>
   event_reply second_send_fails (Suc (length (requests start_world))) =
     Some (Error ''Network error'') \<and>
   (case flushQueue test_keys test_JSON second_send_fails three_queued start_world of
      (q', w') \<Rightarrow>
        queue q' = [makeEvent ''c'', makeEvent ''b''] \<and>
        requests w' = requests start_world @ [event_call (makeEvent ''a''), event_call (makeEvent ''b'')])"
proof -
  have h1: "queue (load test_keys test_JSON three_queued (storage start_world)) =
          [makeEvent ''a'', makeEvent ''b'', makeEvent ''c'']"
    by (simp add: load_def three_queued_def)
  have h2: "event_reply second_send_fails (length (requests start_world)) = None"
    by (simp add: second_send_fails_def start_world_def)
  have h3: "event_reply second_send_fails (Suc (length (requests start_world))) =
          Some (Error ''Network error'')"
    by (simp add: second_send_fails_def start_world_def)
  show ?thesis
    using h1 h2 h3 flushQueue_second_send_fails [OF h1 h2 h3] by simp
qed

text \<open>
  C5 as stated fails: after the call the queue holds two records, not one.
\<close>

theorem flushQueue_three_records_counterexample:
  "queue (fst (flushQueue test_keys test_JSON second_send_fails three_queued start_world)) =
     [makeEvent ''c'', makeEvent ''b''] \<and>
   count (fst (flushQueue test_keys test_JSON second_send_fails three_queued start_world)) \<noteq> 1"
proof -
  have "queue (load test_keys test_JSON three_queued (storage start_world)) =
          [makeEvent ''a'', makeEvent ''b'', makeEvent ''c'']"
    by (simp add: load_def three_queued_def)
  moreover have "event_reply second_send_fails (length (requests start_world)) = None"
    by (simp add: second_send_fails_def start_world_def)
  moreover have "event_reply second_send_fails (Suc (length (requests start_world))) =
          Some (Error ''Network error'')"
    by (simp add: second_send_fails_def start_world_def)
  ultimately show ?thesis
    using flushQueue_abc [of test_keys test_JSON three_queued start_world "makeEvent ''a''"
        "makeEvent ''b''" "makeEvent ''c''" second_send_fails "Error ''Network error''"]
    by (simp add: count_def)
qed

subsection \<open>Tracking an event\<close>

lemma flushQueue_subset:
  assumes "flushQueue K J N q w = (q', w')"
  shows "set (queue q') \<subseteq> set (queue (load K J q (storage w))) \<and>
         take (length (requests w)) (requests w') = requests w"
proof -
  let ?q0 = "load K J q (storage w)"
  obtain r where f: "flushLoop K J N ?q0 w = (r, q', w')"
    using assms by (cases "flushLoop K J N ?q0 w") (simp add: flushQueue_def)
  note out = flushLoop_outcome [OF loaded_load f]
  show ?thesis
  proof (cases r)
    case None
    with out show ?thesis by simp
  next
    case (Some added)
    with out obtain k where k: "k < length (queue ?q0)"
      "requests w' = requests w @ map event_call (take (Suc k) (queue ?q0))"
      "queue q' = (if added then drop (Suc k) (queue ?q0) @ [queue ?q0 ! k]
                   else drop (Suc k) (queue ?q0))"
      by auto
    have "set (drop (Suc k) (queue ?q0)) \<subseteq> set (queue ?q0)" by (rule set_drop_subset)
    moreover have "queue ?q0 ! k \<in> set (queue ?q0)" using k(1) by simp
    ultimately show ?thesis using k by auto
  qed
qed

lemma trackEvent_outcome:
  assumes n: "name \<noteq> []" "trim name \<noteq> []"
      and i: "getInstallId K (storage w) = Inr (Some iid)" "iid \<noteq> []"
  shows "sent_or_queued K J N
           \<lparr>installId = iid, eventName = name,
            eventData = (case props of None \<Rightarrow> [] | Some p \<Rightarrow> p), timestamp = now\<rparr>
           q w (trackEvent K J N now name props q w)"
proof -
  let ?ev = "\<lparr>installId = iid, eventName = name,
            eventData = (case props of None \<Rightarrow> [] | Some p \<Rightarrow> p), timestamp = now\<rparr>"
  let ?w1 = "w\<lparr>requests := requests w @ [event_call ?ev]\<rparr>"
  show ?thesis
  proof (cases "event_reply N (length (requests w))")
    case None
    obtain q2 w2 where f: "flushQueue K J N q ?w1 = (q2, w2)"
      by (cases "flushQueue K J N q ?w1")
    have t: "trackEvent K J N now name props q w = (Inr (), q2, w2)"
      using n i None f by (simp add: trackEvent_def sendEvent_def Let_def)
    from flushQueue_subset [OF f]
    have s: "set (queue q2) \<subseteq> set (queue (load K J q (storage w)))"
      and p: "take (Suc (length (requests w))) (requests w2) = requests w @ [event_call ?ev]"
      by simp_all
    show ?thesis unfolding t sent_or_queued_def using None s p f by simp
  next
    case (Some e)
    show ?thesis
      using n i Some
      by (simp add: sent_or_queued_def trackEvent_def sendEvent_def Let_def enqueue_def count_def
          MAX_QUEUE_SIZE_def)
  qed
qed

lemma trim_revenue: "trim ''revenue'' \<noteq> []"
  by (simp add: trim_def isWhiteSpace_def)

text \<open>
  C1, as amended. For a name that is not empty or blank, or a revenue amount that is not
  negative, and a stored install id: \<open>trackEvent\<close> and \<open>trackRevenue\<close> post the record;
  if the post resolves the call resolves without adding the record to the queue; if the
  post is rejected the call rejects with the same error and the record is appended once
  at the tail of the queue, provided the queue held fewer than 100 records. A queue that
  already holds 100 records is left as it was and the record is dropped.
\<close>

theorem trackEvent_sent_or_queued:
  "(name \<noteq> [] \<and> trim name \<noteq> [] \<and> getInstallId K (storage w) = Inr (Some iid) \<and> iid \<noteq> [] \<longrightarrow>
      sent_or_queued K J N
        \<lparr>installId = iid, eventName = name,
         eventData = (case props of None \<Rightarrow> [] | Some p \<Rightarrow> p), timestamp = now\<rparr>
        q w (trackEvent K J N now name props q w)) \<and>
   (0 \<le> amount \<and> getInstallId K (storage w) = Inr (Some iid) \<and> iid \<noteq> [] \<longrightarrow>
      sent_or_queued K J N
        \<lparr>installId = iid, eventName = ''revenue'',
         eventData = assign ''currency'' (String currency)
                       (assign ''revenue'' (Number amount)
                          (case props of None \<Rightarrow> [] | Some p \<Rightarrow> p)),
         timestamp = now\<rparr>
        q w (trackRevenue K J N now amount currency props q w))"
proof (intro conjI impI)
  assume "name \<noteq> [] \<and> trim name \<noteq> [] \<and> getInstallId K (storage w) = Inr (Some iid) \<and> iid \<noteq> []"
  then show "sent_or_queued K J N
        \<lparr>installId = iid, eventName = name,
         eventData = (case props of None \<Rightarrow> [] | Some p \<Rightarrow> p), timestamp = now\<rparr>
        q w (trackEvent K J N now name props q w)"
    using trackEvent_outcome [of name K w iid J N props now q] by simp
next
  assume a: "0 \<le> amount \<and> getInstallId K (storage w) = Inr (Some iid) \<and> iid \<noteq> []"
  let ?p = "assign ''currency'' (String currency)
              (assign ''revenue'' (Number amount) (case props of None \<Rightarrow> [] | Some p \<Rightarrow> p))"
  have "trackRevenue K J N now amount currency props q w =
          trackEvent K J N now ''revenue'' (Some ?p) q w"
    using a by (simp add: trackRevenue_def Let_def)
  then show "sent_or_queued K J N
        \<lparr>installId = iid, eventName = ''revenue'', eventData = ?p, timestamp = now\<rparr>
        q w (trackRevenue K J N now amount currency props q w)"
    using trackEvent_outcome [of "''revenue''" K w iid J N "Some ?p" now q] a trim_revenue
    by simp
qed

theorem trackEvent_sent_or_queued_witness:
  "(''purchase'' \<noteq> [] \<and> trim ''purchase'' \<noteq> [] \<and>
    getInstallId test_keys (storage start_world) = Inr (Some ''install-1'') \<and> ''install-1'' \<noteq> []) \<and>
   (0 \<le> (9.99 :: real)) \<and>
   sent_or_queued test_keys test_JSON offline
     \<lparr>installId = ''install-1'', eventName = ''purchase'',
      eventData = (case Some [(''item'', String ''shoes'')] of None \<Rightarrow> [] | Some p \<Rightarrow> p),
      timestamp = ''2026-01-01T00:00:00.000Z''\<rparr>
     new_EventQueue start_world
     (trackEvent test_keys test_JSON offline ''2026-01-01T00:00:00.000Z'' ''purchase''
        (Some [(''item'', String ''shoes'')]) new_EventQueue start_world) \<and>
   sent_or_queued test_keys test_JSON offline
     \<lparr>installId = ''install-1'', eventName = ''revenue'',
      eventData = assign ''currency'' (String ''USD'')
                    (assign ''revenue'' (Number 9.99)
                       (case Some [(''item'', String ''shoes'')] of None \<Rightarrow> [] | Some p \<Rightarrow> p)),
      timestamp = ''2026-01-01T00:00:00.000Z''\<rparr>
     new_EventQueue start_world
     (trackRevenue test_keys test_JSON offline ''2026-01-01T00:00:00.000Z'' 9.99 ''USD''
        (Some [(''item'', String ''shoes'')]) new_EventQueue start_world)"
proof -
  have h1: "trim ''purchase'' \<noteq> []" by (simp add: trim_def isWhiteSpace_def)
  have h2: "getInstallId test_keys (storage start_world) = Inr (Some ''install-1'')"
    by (simp add: getInstallId_def getItem_def test_keys_def start_world_def stored_id_def)
  show ?thesis
    using h1 h2
      trackEvent_sent_or_queued [of "''purchase''" test_keys start_world "''install-1''" test_JSON
        offline "Some [(''item'', String ''shoes'')]" "''2026-01-01T00:00:00.000Z''" new_EventQueue
        "9.99" "''USD''"]
    by simp
qed

text \<open>
  C1 as stated fails on a queue that already holds 100 records: the send fails and the
  record is not in the queue afterwards.
\<close>

theorem trackEvent_full_queue_counterexample:
  "fst (trackEvent test_keys test_JSON offline ''2026-01-01T00:00:00.000Z'' ''purchase'' None
          full_queue start_world) = Inl (Error ''Network error'') \<and>
   count full_queue = 100 \<and>
   \<lparr>installId = ''install-1'', eventName = ''purchase'', eventData = [],
    timestamp = ''2026-01-01T00:00:00.000Z''\<rparr>
     \<notin> set (queue (fst (snd (trackEvent test_keys test_JSON offline ''2026-01-01T00:00:00.000Z''
                               ''purchase'' None full_queue start_world))))"
proof -
  have h1: "trim ''purchase'' \<noteq> []" by (simp add: trim_def isWhiteSpace_def)
  have h2: "getInstallId test_keys (storage start_world) = Inr (Some ''install-1'')"
    by (simp add: getInstallId_def getItem_def test_keys_def start_world_def stored_id_def)
  have t: "trackEvent test_keys test_JSON offline ''2026-01-01T00:00:00.000Z'' ''purchase'' None
             full_queue start_world =
           (Inl (Error ''Network error''), full_queue,
            start_world\<lparr>requests := [event_call \<lparr>installId = ''install-1'', eventName = ''purchase'',
               eventData = [], timestamp = ''2026-01-01T00:00:00.000Z''\<rparr>]\<rparr>)"
    using h1 h2
    by (simp add: trackEvent_def sendEvent_def Let_def enqueue_def load_def full_queue_def
        offline_def MAX_QUEUE_SIZE_def start_world_def)
  show ?thesis unfolding t by (simp add: full_queue_def count_def makeEvent_def)
qed


subsection \<open>The transport\<close>

lemma isDigit_digit_char: "d < 10 \<Longrightarrow> isDigit (digit_char d)"
  by (simp add: isDigit_def digit_char_def)

lemma of_char_digit_char: "d < 10 \<Longrightarrow> (of_char (digit_char d) :: nat) = 48 + d"
  by (simp add: digit_char_def)

lemma String_of_nat_digits: "\<forall>c \<in> set (String_of_nat n). isDigit c"
proof (induction n rule: String_of_nat.induct)
  case (1 n)
  show ?case
  proof (cases "n < 10")
    case True
    then show ?thesis by (subst String_of_nat.simps) (simp add: isDigit_digit_char)
  next
    case False
    with 1 show ?thesis by (subst String_of_nat.simps) (simp add: isDigit_digit_char)
  qed
qed

lemma String_of_nat_nonempty: "String_of_nat n \<noteq> []"
  by (subst String_of_nat.simps) simp

lemma parseInt_snoc: "parseInt (ds @ [c]) = 10 * parseInt ds + (of_char c - 48)"
  by (simp add: parseInt_def)

lemma parseInt_String_of_nat: "parseInt (String_of_nat n) = n"
proof (induction n rule: String_of_nat.induct)
  case (1 n)
  show ?case
  proof (cases "n < 10")
    case True
    then show ?thesis
      by (subst String_of_nat.simps) (simp add: parseInt_def of_char_digit_char)
  next
    case False
    with 1 show ?thesis
      by (subst String_of_nat.simps) (simp add: parseInt_snoc of_char_digit_char)
  qed
qed

lemma takeWhile_digits:
  "\<not> isDigit c \<Longrightarrow> takeWhile isDigit (String_of_nat n @ c # rest) = String_of_nat n"
  using String_of_nat_digits [of n] by simp

lemma matchStatus_message:
  "matchStatus (''Invalid server response (status: '' @ String_of_nat n @ '')'' @ detail) = Some n"
proof -
  have nd: "\<not> isDigit CHR '')''" by (simp add: isDigit_def)
  show ?thesis
    using takeWhile_digits [OF nd, of n detail]
    by (simp add: String_of_nat_nonempty parseInt_String_of_nat)
qed

lemma matchStatus_invalidResponse: "matchStatus (message (invalidResponse st msg)) = Some st"
  using matchStatus_message [of st] by (simp add: invalidResponse_def Let_def)

lemma notRetried_invalidResponse:
  "notRetried (invalidResponse st msg) = (400 \<le> st \<and> st < 500)"
  using matchStatus_invalidResponse [of st msg]
  by (simp add: notRetried_def) (simp add: invalidResponse_def Let_def)

lemma notRetried_networkError: "\<not> notRetried (networkError e)"
  by (simp add: notRetried_def networkError_def)


lemma performRequest_trace:
  "snd (performRequest M fetch ep opts t) = t @ [fetchCall M ep opts]"
  by (simp add: performRequest_def Let_def split: FetchResult.splits json.splits)

lemma isFetch_fetchCall: "isFetch (fetchCall M ep opts)"
  by (simp add: fetchCall_def Let_def)

lemma fetchCount_append [simp]: "fetchCount (t @ u) = fetchCount t + fetchCount u"
  by (simp add: fetchCount_def)

lemma fetchCount_fetchCall [simp]: "fetchCount [fetchCall M ep opts] = 1"
  by (simp add: fetchCount_def isFetch_fetchCall)

lemma fetchCount_Delay [simp]: "fetchCount [Delay ms] = 0"
  by (simp add: fetchCount_def)

lemma performRequest_failure:
  "attemptFailure (fetch (fetchCount t)) = Some e \<Longrightarrow>
     performRequest M fetch ep opts t = (Inl e, t @ [fetchCall M ep opts])"
  by (auto simp: performRequest_def attemptFailure_def Let_def
      split: FetchResult.splits json.splits if_splits)

lemma performRequest_success:
  "fetch (fetchCount t) = Resolved r \<Longrightarrow> ok r \<Longrightarrow> response_json r = Json m er v \<Longrightarrow>
     performRequest M fetch ep opts t = (Inr v, t @ [fetchCall M ep opts])"
  by (simp add: performRequest_def Let_def)

lemma isLinkFortyError_networkError: "isLinkFortyError (networkError e)"
  by (simp add: networkError_def)

lemma isLinkFortyError_invalidResponse: "isLinkFortyError (invalidResponse st msg)"
  by (simp add: invalidResponse_def Let_def)

lemma retried_failure:
  "retried x \<Longrightarrow> \<exists>e. attemptFailure x = Some e \<and> \<not> notRetried e \<and> isLinkFortyError e"
  by (cases x)
     (auto simp: retried_def attemptFailure_def notRetried_invalidResponse notRetried_networkError
        isLinkFortyError_networkError isLinkFortyError_invalidResponse)

lemma requestLoop_retry:
  assumes "attempt \<le> maxRetries" "attemptFailure (fetch (fetchCount t)) = Some e" "\<not> notRetried e"
      and "next = attempt + 1"
      and "t' = (if attempt < maxRetries
                 then t @ [fetchCall M ep opts, Delay (2 ^ (attempt - 1) * 1000)]
                 else t @ [fetchCall M ep opts])"
  shows "requestLoop M fetch ep opts attempt lastError t =
           requestLoop M fetch ep opts next (Some e) t'"
  using assms performRequest_failure [of fetch t e M ep opts]
  by (subst requestLoop.simps) simp

lemma requestLoop_stop:
  assumes "attempt \<le> maxRetries" "attemptFailure (fetch (fetchCount t)) = Some e" "notRetried e"
  shows "requestLoop M fetch ep opts attempt lastError t = (Inl e, t @ [fetchCall M ep opts])"
  using assms performRequest_failure [of fetch t e M ep opts]
  by (subst requestLoop.simps) simp

lemma requestLoop_return:
  assumes "attempt \<le> maxRetries" "fetch (fetchCount t) = Resolved r" "ok r"
    "response_json r = Json m er v"
  shows "requestLoop M fetch ep opts attempt lastError t = (Inr v, t @ [fetchCall M ep opts])"
  using assms performRequest_success [of fetch t r m er v M ep opts]
  by (subst requestLoop.simps) simp

lemma requestLoop_exhausted:
  assumes "maxRetries < attempt"
  shows "requestLoop M fetch ep opts attempt (Some e) t =
           (Inl (if isLinkFortyError e then e else networkError e), t)"
  using assms
  by (subst requestLoop.simps) simp

lemma two_retries:
  assumes r0: "retried (fetch (fetchCount t))"
      and r1: "retried (fetch (fetchCount t + 1))"
  shows "\<exists>e2. request M fetch ep opts t =
                 requestLoop M fetch ep opts 3 (Some e2)
                   (t @ [fetchCall M ep opts, Delay 1000, fetchCall M ep opts, Delay 2000])"
proof -
  from retried_failure [OF r0] obtain e1 where
    e1: "attemptFailure (fetch (fetchCount t)) = Some e1" "\<not> notRetried e1" by blast
  let ?t1 = "t @ [fetchCall M ep opts, Delay 1000]"
  have 1: "requestLoop M fetch ep opts 1 None t = requestLoop M fetch ep opts 2 (Some e1) ?t1"
    using e1 by (intro requestLoop_retry [where attempt = 1]) (simp_all add: maxRetries_def)
  have c1: "fetchCount ?t1 = fetchCount t + 1"
    using fetchCount_append [of t "[fetchCall M ep opts, Delay 1000]"]
    by (simp add: fetchCount_def isFetch_fetchCall)
  from retried_failure [OF r1] obtain e2 where
    e2: "attemptFailure (fetch (fetchCount ?t1)) = Some e2" "\<not> notRetried e2"
    unfolding c1 by blast
  have 2: "requestLoop M fetch ep opts 2 (Some e1) ?t1 =
             requestLoop M fetch ep opts 3 (Some e2) (?t1 @ [fetchCall M ep opts, Delay 2000])"
    using e2 by (intro requestLoop_retry [where attempt = 2]) (simp_all add: maxRetries_def)
  from 1 2 show ?thesis by (auto simp: request_def)
qed

lemma fetchCount_two_retries:
  "fetchCount (t @ [fetchCall M ep opts, Delay a, fetchCall M ep opts, Delay b]) = fetchCount t + 2"
  using fetchCount_append [of t "[fetchCall M ep opts, Delay a, fetchCall M ep opts, Delay b]"]
  by (simp add: fetchCount_def isFetch_fetchCall)

lemma request_exhausted:
  assumes r0: "retried (fetch (fetchCount t))"
      and r1: "retried (fetch (fetchCount t + 1))"
      and r2: "retried (fetch (fetchCount t + 2))"
  shows "\<exists>e. attemptFailure (fetch (fetchCount t + 2)) = Some e \<and>
             request M fetch ep opts t =
               (Inl e, t @ [fetchCall M ep opts, Delay 1000, fetchCall M ep opts, Delay 2000,
                            fetchCall M ep opts])"
proof -
  let ?t2 = "t @ [fetchCall M ep opts, Delay 1000, fetchCall M ep opts, Delay 2000]"
  from two_retries [OF r0 r1] obtain e2 where
    2: "request M fetch ep opts t = requestLoop M fetch ep opts 3 (Some e2) ?t2" by blast
  have c2: "fetchCount ?t2 = fetchCount t + 2" by (rule fetchCount_two_retries)
  from retried_failure [OF r2] obtain e3 where
    e3: "attemptFailure (fetch (fetchCount ?t2)) = Some e3" "\<not> notRetried e3" "isLinkFortyError e3"
    unfolding c2 by blast
  have 3: "requestLoop M fetch ep opts 3 (Some e2) ?t2 =
             requestLoop M fetch ep opts 4 (Some e3) (?t2 @ [fetchCall M ep opts])"
    using e3 by (intro requestLoop_retry [where attempt = 3]) (simp_all add: maxRetries_def)
  have 4: "requestLoop M fetch ep opts 4 (Some e3) (?t2 @ [fetchCall M ep opts]) =
             (Inl e3, ?t2 @ [fetchCall M ep opts])"
    using requestLoop_exhausted [of 4 M fetch ep opts e3] e3(3) by (simp add: maxRetries_def)
  from 2 3 4 e3(1) show ?thesis unfolding c2 by simp
qed

lemma request_two_retries_then_success:
  assumes r0: "retried (fetch (fetchCount t))"
      and r1: "retried (fetch (fetchCount t + 1))"
      and r2: "fetch (fetchCount t + 2) = Resolved r" "ok r" "response_json r = Json m er v"
  shows "request M fetch ep opts t =
           (Inr v, t @ [fetchCall M ep opts, Delay 1000, fetchCall M ep opts, Delay 2000,
                        fetchCall M ep opts])"
proof -
  let ?t2 = "t @ [fetchCall M ep opts, Delay 1000, fetchCall M ep opts, Delay 2000]"
  from two_retries [OF r0 r1] obtain e2 where
    2: "request M fetch ep opts t = requestLoop M fetch ep opts 3 (Some e2) ?t2" by blast
  have c2: "fetchCount ?t2 = fetchCount t + 2" by (rule fetchCount_two_retries)
  have "requestLoop M fetch ep opts 3 (Some e2) ?t2 = (Inr v, ?t2 @ [fetchCall M ep opts])"
    using requestLoop_return [of 3 fetch ?t2 r m er v M ep opts "Some e2"] r2
    unfolding c2 by (simp add: maxRetries_def)
  with 2 show ?thesis by simp
qed

lemma request_client_error:
  assumes f: "fetch (fetchCount t) = Resolved r" and s: "400 \<le> status r" "status r < 500"
  shows "request M fetch ep opts t =
           (Inl (invalidResponse (status r) (serverMessage (response_json r))),
            t @ [fetchCall M ep opts])"
proof -
  let ?e = "invalidResponse (status r) (serverMessage (response_json r))"
  have a: "attemptFailure (fetch (fetchCount t)) = Some ?e"
    using f s by (simp add: attemptFailure_def ok_def)
  have "notRetried ?e" using s by (simp add: notRetried_invalidResponse)
  from requestLoop_stop [of 1 fetch t ?e M ep opts None, OF _ a this]
  show ?thesis by (simp add: request_def maxRetries_def)
qed

text \<open>
  C8. When \<open>fetch\<close> answers 500, 500 and then 200 with a body that parses, \<open>request\<close>
  makes exactly three calls, waits 1000 ms before the second and 2000 ms before the
  third, and returns the body. When \<open>fetch\<close> answers a status from 400 to 499,
  \<open>request\<close> makes exactly one call, waits for nothing, and rejects with an
  \<open>INVALID_RESPONSE\<close> error whose message carries the status and, if the body gave one,
  the server's message.
\<close>

theorem request_500_500_200_and_4xx:
  "(fetch (fetchCount t) = Resolved r0 \<and> status r0 = 500 \<and>
    fetch (fetchCount t + 1) = Resolved r1 \<and> status r1 = 500 \<and>
    fetch (fetchCount t + 2) = Resolved r2 \<and> status r2 = 200 \<and> response_json r2 = Json m er v \<longrightarrow>
      request M fetch ep opts t =
        (Inr v, t @ [fetchCall M ep opts, Delay 1000, fetchCall M ep opts, Delay 2000,
                     fetchCall M ep opts])) \<and>
   (fetch' (fetchCount t') = Resolved r \<and> 400 \<le> status r \<and> status r < 500 \<longrightarrow>
      request M fetch' ep opts t' =
        (Inl (invalidResponse (status r) (serverMessage (response_json r))),
         t' @ [fetchCall M ep opts]) \<and>
      code (invalidResponse (status r) (serverMessage (response_json r))) = Some INVALID_RESPONSE \<and>
      message (invalidResponse (status r) (serverMessage (response_json r))) =
        ''Invalid server response (status: '' @ String_of_nat (status r) @ '')'' @
        (case serverMessage (response_json r) of
           None \<Rightarrow> []
         | Some s \<Rightarrow> if s = [] then [] else '': '' @ s))"
proof (intro conjI impI)
  assume a: "fetch (fetchCount t) = Resolved r0 \<and> status r0 = 500 \<and>
    fetch (fetchCount t + 1) = Resolved r1 \<and> status r1 = 500 \<and>
    fetch (fetchCount t + 2) = Resolved r2 \<and> status r2 = 200 \<and> response_json r2 = Json m er v"
  then have "retried (fetch (fetchCount t))" "retried (fetch (fetchCount t + 1))"
    by (simp_all add: retried_def ok_def)
  moreover have "ok r2" using a by (simp add: ok_def)
  ultimately show "request M fetch ep opts t =
        (Inr v, t @ [fetchCall M ep opts, Delay 1000, fetchCall M ep opts, Delay 2000,
                     fetchCall M ep opts])"
    using request_two_retries_then_success [of fetch t r2 m er v M ep opts] a by simp
next
  assume "fetch' (fetchCount t') = Resolved r \<and> 400 \<le> status r \<and> status r < 500"
  then show "request M fetch' ep opts t' =
        (Inl (invalidResponse (status r) (serverMessage (response_json r))),
         t' @ [fetchCall M ep opts])"
    using request_client_error [of fetch' t' r M ep opts] by simp
next
  show "code (invalidResponse (status r) (serverMessage (response_json r))) = Some INVALID_RESPONSE"
    by (simp add: invalidResponse_def Let_def)
next
  show "message (invalidResponse (status r) (serverMessage (response_json r))) =
        ''Invalid server response (status: '' @ String_of_nat (status r) @ '')'' @
        (case serverMessage (response_json r) of
           None \<Rightarrow> []
         | Some s \<Rightarrow> if s = [] then [] else '': '' @ s)"
    by (simp add: invalidResponse_def Let_def)
qed

theorem request_500_500_200_and_4xx_witness:
  "(third_succeeds (fetchCount []) = Resolved server_error \<and> status server_error = 500 \<and>
    third_succeeds (fetchCount [] + 1) = Resolved server_error \<and> status server_error = 500 \<and>
    third_succeeds (fetchCount [] + 2) = Resolved success \<and> status success = 200 \<and>
    response_json success = Json None None ''{success: true}'') \<and>
   (always_404 (fetchCount []) = Resolved not_found \<and> 400 \<le> status not_found \<and>
    status not_found < 500) \<and>
   request test_manager third_succeeds ''/api/test'' no_options [] =
     (Inr ''{success: true}'',
      [fetchCall test_manager ''/api/test'' no_options, Delay 1000,
       fetchCall test_manager ''/api/test'' no_options, Delay 2000,
       fetchCall test_manager ''/api/test'' no_options]) \<and>
   request test_manager always_404 ''/api/test'' no_options [] =
     (Inl (invalidResponse 404 (Some ''Not found'')),
      [fetchCall test_manager ''/api/test'' no_options]) \<and>
   code (invalidResponse 404 (Some ''Not found'')) = Some INVALID_RESPONSE \<and>
   message (invalidResponse 404 (Some ''Not found'')) =
     ''Invalid server response (status: '' @ String_of_nat 404 @ ''): Not found''"
proof -
  have h1: "third_succeeds (fetchCount []) = Resolved server_error \<and> status server_error = 500 \<and>
    third_succeeds (fetchCount [] + 1) = Resolved server_error \<and> status server_error = 500 \<and>
    third_succeeds (fetchCount [] + 2) = Resolved success \<and> status success = 200 \<and>
    response_json success = Json None None ''{success: true}''"
    by (simp add: third_succeeds_def fetchCount_def server_error_def success_def)
  have h2: "always_404 (fetchCount []) = Resolved not_found \<and> 400 \<le> status not_found \<and>
    status not_found < 500"
    by (simp add: always_404_def not_found_def)
  have s: "serverMessage (response_json not_found) = Some ''Not found''" "status not_found = 404"
    by (simp_all add: serverMessage_def not_found_def)
  show ?thesis
    using h1 h2
      request_500_500_200_and_4xx [of third_succeeds "[]" server_error server_error success
        None None "''{success: true}''" test_manager "''/api/test''" no_options always_404 "[]"
        not_found]
    unfolding s by simp
qed

text \<open>
  C2, as amended. When all three attempts fail in a way that is retried (a rejected
  \<open>fetch\<close>, or a status that is neither a success nor from 400 to 499), \<open>request\<close>
  rejects with the error of the last attempt as it is: a \<open>NETWORK_ERROR\<close> wrapping the
  cause when the last \<open>fetch\<close> was rejected, an \<open>INVALID_RESPONSE\<close> carrying the last
  status, with no cause, when the last \<open>fetch\<close> was answered.
\<close>

theorem request_surfaces_last_failure:
  "retried (fetch (fetchCount t)) \<and> retried (fetch (fetchCount t + 1)) \<and>
   retried (fetch (fetchCount t + 2)) \<longrightarrow>
     (\<exists>e. request M fetch ep opts t =
             (Inl e, t @ [fetchCall M ep opts, Delay 1000, fetchCall M ep opts, Delay 2000,
                          fetchCall M ep opts]) \<and>
          (\<forall>c. fetch (fetchCount t + 2) = Rejected c \<longrightarrow>
             e = networkError c \<and> code e = Some NETWORK_ERROR \<and> cause e = Some c) \<and>
          (\<forall>r. fetch (fetchCount t + 2) = Resolved r \<longrightarrow>
             e = invalidResponse (status r) (serverMessage (response_json r)) \<and>
             code e = Some INVALID_RESPONSE \<and> cause e = None))"
proof
  assume a: "retried (fetch (fetchCount t)) \<and> retried (fetch (fetchCount t + 1)) \<and>
   retried (fetch (fetchCount t + 2))"
  then obtain e where e: "attemptFailure (fetch (fetchCount t + 2)) = Some e"
    "request M fetch ep opts t =
       (Inl e, t @ [fetchCall M ep opts, Delay 1000, fetchCall M ep opts, Delay 2000,
                    fetchCall M ep opts])"
    using request_exhausted [of fetch t M ep opts] by blast
  have 1: "\<forall>c. fetch (fetchCount t + 2) = Rejected c \<longrightarrow>
             e = networkError c \<and> code e = Some NETWORK_ERROR \<and> cause e = Some c"
    using e(1) by (auto simp: attemptFailure_def networkError_def)
  have 2: "\<forall>r. fetch (fetchCount t + 2) = Resolved r \<longrightarrow>
             e = invalidResponse (status r) (serverMessage (response_json r)) \<and>
             code e = Some INVALID_RESPONSE \<and> cause e = None"
  proof (intro allI impI)
    fix r assume r: "fetch (fetchCount t + 2) = Resolved r"
    with a have "\<not> ok r" by (simp add: retried_def)
    with e(1) r have "e = invalidResponse (status r) (serverMessage (response_json r))"
      by (simp add: attemptFailure_def)
    then show "e = invalidResponse (status r) (serverMessage (response_json r)) \<and>
             code e = Some INVALID_RESPONSE \<and> cause e = None"
      by (simp add: invalidResponse_def Let_def)
  qed
  from e(2) 1 2 show "\<exists>e. request M fetch ep opts t =
             (Inl e, t @ [fetchCall M ep opts, Delay 1000, fetchCall M ep opts, Delay 2000,
                          fetchCall M ep opts]) \<and>
          (\<forall>c. fetch (fetchCount t + 2) = Rejected c \<longrightarrow>
             e = networkError c \<and> code e = Some NETWORK_ERROR \<and> cause e = Some c) \<and>
          (\<forall>r. fetch (fetchCount t + 2) = Resolved r \<longrightarrow>
             e = invalidResponse (status r) (serverMessage (response_json r)) \<and>
             code e = Some INVALID_RESPONSE \<and> cause e = None)"
    by blast
qed

lemma retried_always_500: "retried (always_500 i)"
  by (simp add: always_500_def retried_def server_error_def ok_def)

theorem request_surfaces_last_failure_witness:
  "(retried (always_500 (fetchCount [])) \<and> retried (always_500 (fetchCount [] + 1)) \<and>
    retried (always_500 (fetchCount [] + 2))) \<and>
   (\<exists>e. request test_manager always_500 ''/api/test'' no_options [] =
           (Inl e, [] @ [fetchCall test_manager ''/api/test'' no_options, Delay 1000,
                   fetchCall test_manager ''/api/test'' no_options, Delay 2000,
                   fetchCall test_manager ''/api/test'' no_options]) \<and>
        (\<forall>c. always_500 (fetchCount [] + 2) = Rejected c \<longrightarrow>
           e = networkError c \<and> code e = Some NETWORK_ERROR \<and> cause e = Some c) \<and>
        (\<forall>r. always_500 (fetchCount [] + 2) = Resolved r \<longrightarrow>
           e = invalidResponse (status r) (serverMessage (response_json r)) \<and>
           code e = Some INVALID_RESPONSE \<and> cause e = None))"
  using request_surfaces_last_failure [of always_500 "[]" test_manager "''/api/test''" no_options]
    retried_always_500
  by blast

text \<open>
  C2 as stated fails: three answers with status 500 surface an \<open>INVALID_RESPONSE\<close>
  error, not the \<open>NETWORK_ERROR\<close> that three rejected calls surface.
\<close>

theorem request_5xx_counterexample:
  "fst (request test_manager always_500 ''/api/test'' no_options []) =
     Inl (invalidResponse 500 (Some ''Server error'')) \<and>
   code (invalidResponse 500 (Some ''Server error'')) = Some INVALID_RESPONSE \<and>
   code (invalidResponse 500 (Some ''Server error'')) \<noteq> Some NETWORK_ERROR \<and>
   fst (request test_manager connection_lost ''/api/test'' no_options []) =
     Inl (networkError (Error ''Network request failed'')) \<and>
   code (networkError (Error ''Network request failed'')) = Some NETWORK_ERROR"
proof -
  have a: "attemptFailure (always_500 i) = Some (invalidResponse 500 (Some ''Server error''))" for i
    by (simp add: attemptFailure_def always_500_def server_error_def ok_def serverMessage_def)
  have 1: "fst (request test_manager always_500 ''/api/test'' no_options []) =
     Inl (invalidResponse 500 (Some ''Server error''))"
    using request_exhausted [of always_500 "[]" test_manager "''/api/test''" no_options]
      retried_always_500 a
    by auto
  have r: "retried (connection_lost i)" for i
    by (simp add: connection_lost_def retried_def)
  have b: "attemptFailure (connection_lost i) = Some (networkError (Error ''Network request failed''))" for i
    by (simp add: attemptFailure_def connection_lost_def)
  have 2: "fst (request test_manager connection_lost ''/api/test'' no_options []) =
     Inl (networkError (Error ''Network request failed''))"
    using request_exhausted [of connection_lost "[]" test_manager "''/api/test''" no_options] r b
    by auto
  show ?thesis using 1 2 by (simp add: invalidResponse_def networkError_def Let_def)
qed

subsection \<open>Deferred deep links\<close>

lemma register_deferred_delivered:
  "deferredDelivered h \<Longrightarrow>
     register_deferred cbs h w =
       (h\<lparr>deferredCallbacks := deferredCallbacks h @ cbs\<rparr>,
        w\<lparr>invoked := invoked w @ map (\<lambda>cb. DeferredCall cb (cachedDeferredData h)) cbs\<rparr>)"
proof (induction cbs arbitrary: h w)
  case Nil
  then show ?case by simp
next
  case (Cons cb cbs)
  let ?h1 = "h\<lparr>deferredCallbacks := deferredCallbacks h @ [cb]\<rparr>"
  let ?w1 = "w\<lparr>invoked := invoked w @ [DeferredCall cb (cachedDeferredData h)]\<rparr>"
  have "onDeferredDeepLink cb h w = (?h1, ?w1)"
    using Cons.prems by (simp add: onDeferredDeepLink_def)
  moreover have "deferredDelivered ?h1" using Cons.prems by simp
  ultimately show ?case using Cons.IH [of ?h1 ?w1] by simp
qed

text \<open>
  C3, as amended. A second call of \<open>deliverDeferredDeepLink\<close> overwrites the cached
  payload and calls every deferred callback registered so far, in registration order,
  with the new payload: the callbacks that the first delivery called are called again,
  and so are those registered in between, which were called with the first payload when
  they registered.
\<close>

theorem second_delivery_reaches_every_callback:
  "(case deliverDeferredDeepLink d1 h w of
      (h1, w1) \<Rightarrow>
        (case register_deferred cbs h1 w1 of
           (h2, w2) \<Rightarrow>
             (case deliverDeferredDeepLink d2 h2 w2 of
                (h3, w3) \<Rightarrow>
                  invoked w1 = invoked w @ map (\<lambda>cb. DeferredCall cb d1) (deferredCallbacks h) \<and>
                  invoked w2 = invoked w1 @ map (\<lambda>cb. DeferredCall cb d1) cbs \<and>
                  invoked w3 =
                    invoked w2 @ map (\<lambda>cb. DeferredCall cb d2) (deferredCallbacks h @ cbs) \<and>
                  cachedDeferredData h3 = d2 \<and> deferredDelivered h3 \<and>
                  deferredCallbacks h3 = deferredCallbacks h @ cbs)))"
proof -
  let ?h1 = "h\<lparr>cachedDeferredData := d1, deferredDelivered := True\<rparr>"
  let ?w1 = "w\<lparr>invoked := invoked w @ map (\<lambda>cb. DeferredCall cb d1) (deferredCallbacks h)\<rparr>"
  have 1: "deliverDeferredDeepLink d1 h w = (?h1, ?w1)"
    by (simp add: deliverDeferredDeepLink_def)
  have 2: "register_deferred cbs ?h1 ?w1 =
       (?h1\<lparr>deferredCallbacks := deferredCallbacks ?h1 @ cbs\<rparr>,
        ?w1\<lparr>invoked := invoked ?w1 @ map (\<lambda>cb. DeferredCall cb (cachedDeferredData ?h1)) cbs\<rparr>)"
    by (rule register_deferred_delivered) simp
  from 2 show ?thesis
    by (simp add: deliverDeferredDeepLink_def)
qed

text \<open>
  C3 as stated fails: a callback registered before the first delivery is called by the
  first delivery and again by the second.
\<close>

theorem second_delivery_counterexample:
  "invoked
     (snd (deliverDeferredDeepLink (Some (short_link ''second''))
        (fst (deliverDeferredDeepLink (Some (short_link ''first''))
           (fst (onDeferredDeepLink 1 test_handler empty_world))
           (snd (onDeferredDeepLink 1 test_handler empty_world))))
        (snd (deliverDeferredDeepLink (Some (short_link ''first''))
           (fst (onDeferredDeepLink 1 test_handler empty_world))
           (snd (onDeferredDeepLink 1 test_handler empty_world)))))) =
   [DeferredCall 1 (Some (short_link ''first'')), DeferredCall 1 (Some (short_link ''second''))]"
  by (simp add: deliverDeferredDeepLink_def onDeferredDeepLink_def test_handler_def
      new_DeepLinkHandler_def empty_world_def)

subsection \<open>Clearing the attribution data\<close>

lemma delete_keys_apply: "delete_keys ks m k = (if k \<in> set ks then None else m k)"
  by (induction ks arbitrary: m) auto

text \<open>
  C4, as amended. When the store accepts writes, \<open>clearData\<close> of the attribution manager
  removes four entries of the store, the install id, the install data, the launch flag
  and the persisted event queue, and leaves every other entry, the network log and the
  callback log as they were. When the store rejects writes, \<open>clearData\<close> rejects and
  changes nothing.
\<close>

theorem clearData_removes_event_queue_too:
  "(write_error (storage w) = None \<longrightarrow>
      (case clearData K w of
         (res, w') \<Rightarrow>
           res = Inr () \<and> requests w' = requests w \<and> invoked w' = invoked w \<and>
           read_error (storage w') = read_error (storage w) \<and>
           write_error (storage w') = write_error (storage w) \<and>
           (\<forall>k. items (storage w') k =
                  (if k \<in> {INSTALL_ID K, INSTALL_DATA K, FIRST_LAUNCH K, EVENT_QUEUE K}
                   then None else items (storage w) k)))) \<and>
   (write_error (storage w) = Some e \<longrightarrow> clearData K w = (Inl e, w))"
  by (simp add: clearData_def clearAll_def multiRemove_def delete_keys_apply)

theorem clearData_removes_event_queue_too_witness:
  "write_error (storage queued_world) = None \<and>
   fst (clearData test_keys queued_world) = Inr () \<and>
   items (storage (snd (clearData test_keys queued_world))) (INSTALL_ID test_keys) = None \<and>
   items (storage (snd (clearData test_keys queued_world))) (EVENT_QUEUE test_keys) = None \<and>
   items (storage (snd (clearData test_keys queued_world))) ''other'' = Some ''kept''"
proof -
  have h: "write_error (storage queued_world) = None"
    by (simp add: queued_world_def queued_storage_def)
  have o: "''other'' \<notin> {INSTALL_ID test_keys, INSTALL_DATA test_keys, FIRST_LAUNCH test_keys,
              EVENT_QUEUE test_keys}"
    by (simp add: test_keys_def)
  have i: "items (storage queued_world) ''other'' = Some ''kept''"
    by (simp add: queued_world_def queued_storage_def)
  show ?thesis
    using h o i clearData_removes_event_queue_too [of queued_world test_keys]
    by (auto split: prod.splits)
qed

text \<open>
  C4 as stated fails: a persisted event queue is gone after \<open>clearData\<close>.
\<close>

theorem clearData_event_queue_counterexample:
  "items (storage queued_world) (EVENT_QUEUE test_keys) = Some ''[...]'' \<and>
   items (storage (snd (clearData test_keys queued_world))) (EVENT_QUEUE test_keys) = None"
  by (simp add: clearData_def clearAll_def multiRemove_def queued_world_def queued_storage_def
      test_keys_def)

subsection \<open>Reporting the install\<close>












subsection \<open>The facade before initialization\<close>

lemmas guards =
  requireInitialized_def requireDeepLinkHandler_def requireEventTracker_def

text \<open>
  Whatever is called, the facade is either initialized or exactly as it was constructed.
\<close>

lemma call_keeps_uninitialized:
  assumes "isInitialized s \<or> s = new_LinkFortySDK"
  shows "isInitialized (fst (call E c (s, w))) \<or> fst (call E c (s, w)) = new_LinkFortySDK"
proof (cases "isInitialized s")
  case False
  with assms have n: "s = new_LinkFortySDK" by simp
  show ?thesis
  proof (cases c)
    case (Initialize cfg)
    then show ?thesis
      by (auto simp: n initialize_def new_LinkFortySDK_def Let_def
          split: option.splits prod.splits sum.splits)
  next
    case ClearData
    then show ?thesis
      by (simp add: n clearData_sdk_def new_LinkFortySDK_def)
  next
    case Reset
    then show ?thesis by (simp add: n reset_def new_LinkFortySDK_def)
  qed (simp_all add: n guards new_LinkFortySDK_def onDeferredDeepLink_sdk_def onDeepLink_sdk_def
      handleDeepLink_sdk_def trackEvent_sdk_def trackRevenue_sdk_def flushEvents_def
      clearEventQueue_def)
next
  case True
  show ?thesis
  proof (cases c)
    case (Initialize cfg)
    with True show ?thesis by (simp add: initialize_def)
  next
    case ClearData
    with True show ?thesis
      by (auto simp: clearData_sdk_def split: option.splits prod.splits sum.splits)
  next
    case Reset
    then show ?thesis by (simp add: reset_def new_LinkFortySDK_def)
  qed (insert True, auto simp: guards onDeferredDeepLink_sdk_def onDeepLink_sdk_def
      handleDeepLink_sdk_def trackEvent_sdk_def trackRevenue_sdk_def flushEvents_def
      clearEventQueue_def split: option.splits prod.splits sum.splits)
qed

lemma calls_keep_uninitialized:
  "isInitialized (fst x) \<or> fst x = new_LinkFortySDK \<Longrightarrow>
     isInitialized (fst (calls E cs x)) \<or> fst (calls E cs x) = new_LinkFortySDK"
proof (induction cs arbitrary: x)
  case Nil
  then show ?case by simp
next
  case (Cons c cs)
  obtain s w where x: "x = (s, w)" by (cases x)
  with Cons.prems have "isInitialized (fst (call E c x)) \<or> fst (call E c x) = new_LinkFortySDK"
    using call_keeps_uninitialized [of s E c w] by simp
  from Cons.IH [OF this] show ?case by simp
qed

lemma reset_new: "reset s = new_LinkFortySDK"
  by (simp add: reset_def new_LinkFortySDK_def)

text \<open>
  C9, as amended. In every state that a sequence of calls on a new facade can reach and
  in which \<open>isInitialized\<close> is false, so on a new facade, after an \<open>initialize\<close> that
  config validation rejected, and again after \<open>reset\<close>: \<open>getInstallId\<close> and
  \<open>getInstallData\<close> resolve to \<open>null\<close>, \<open>isFirstLaunch\<close> resolves to \<open>true\<close>,
  \<open>queuedEventCount\<close> is 0, and \<open>trackEvent\<close>, \<open>trackRevenue\<close>, \<open>flushEvents\<close>,
  \<open>clearEventQueue\<close>, \<open>onDeferredDeepLink\<close>, \<open>onDeepLink\<close>, \<open>handleDeepLink\<close> and
  \<open>createLink\<close> throw the \<open>NOT_INITIALIZED\<close> error and change nothing. A new facade is
  not initialized, \<open>reset\<close> gives the state of a new facade, and an \<open>initialize\<close> that
  config validation rejects leaves the facade and the world as they were.
\<close>

theorem uninitialized_facade:
  "(case calls E cs (new_LinkFortySDK, w0) of
      (s, w) \<Rightarrow>
        \<not> isInitialized s \<longrightarrow>
          getInstallId_sdk E s w = Inr None \<and>
          getInstallData_sdk E s w = Inr None \<and>
          isFirstLaunch_sdk E s w = Inr True \<and>
          queuedEventCount_sdk s = 0 \<and>
          trackEvent_sdk E now name props s w = (Inl notInitialized, s, w) \<and>
          trackRevenue_sdk E now amount currency props s w = (Inl notInitialized, s, w) \<and>
          flushEvents E s w = (Inl notInitialized, s, w) \<and>
          clearEventQueue E s w = (Inl notInitialized, s, w) \<and>
          onDeferredDeepLink_sdk cb s w = (Inl notInitialized, s, w) \<and>
          onDeepLink_sdk cb s w = (Inl notInitialized, s, w) \<and>
          handleDeepLink_sdk E url s w = (Inl notInitialized, s, w) \<and>
          createLink E options s w = (Inl notInitialized, w)) \<and>
   \<not> isInitialized new_LinkFortySDK \<and>
   reset s0 = new_LinkFortySDK \<and>
   code notInitialized = Some NOT_INITIALIZED \<and>
   (\<not> isInitialized s1 \<and> validateConfig (env_newURL E) c = Some e \<longrightarrow>
      initialize E c s1 w1 = (Inl e, s1, w1))"
proof (intro conjI)
  obtain s w where r: "calls E cs (new_LinkFortySDK, w0) = (s, w)"
    by (cases "calls E cs (new_LinkFortySDK, w0)")
  have i: "isInitialized s \<or> s = new_LinkFortySDK"
    using calls_keep_uninitialized [of "(new_LinkFortySDK, w0)" E cs] r by simp
  have "\<not> isInitialized s \<longrightarrow>
          getInstallId_sdk E s w = Inr None \<and>
          getInstallData_sdk E s w = Inr None \<and>
          isFirstLaunch_sdk E s w = Inr True \<and>
          queuedEventCount_sdk s = 0 \<and>
          trackEvent_sdk E now name props s w = (Inl notInitialized, s, w) \<and>
          trackRevenue_sdk E now amount currency props s w = (Inl notInitialized, s, w) \<and>
          flushEvents E s w = (Inl notInitialized, s, w) \<and>
          clearEventQueue E s w = (Inl notInitialized, s, w) \<and>
          onDeferredDeepLink_sdk cb s w = (Inl notInitialized, s, w) \<and>
          onDeepLink_sdk cb s w = (Inl notInitialized, s, w) \<and>
          handleDeepLink_sdk E url s w = (Inl notInitialized, s, w) \<and>
          createLink E options s w = (Inl notInitialized, w)"
  proof
    assume "\<not> isInitialized s"
    with i have n: "s = new_LinkFortySDK" by simp
    show "getInstallId_sdk E s w = Inr None \<and>
          getInstallData_sdk E s w = Inr None \<and>
          isFirstLaunch_sdk E s w = Inr True \<and>
          queuedEventCount_sdk s = 0 \<and>
          trackEvent_sdk E now name props s w = (Inl notInitialized, s, w) \<and>
          trackRevenue_sdk E now amount currency props s w = (Inl notInitialized, s, w) \<and>
          flushEvents E s w = (Inl notInitialized, s, w) \<and>
          clearEventQueue E s w = (Inl notInitialized, s, w) \<and>
          onDeferredDeepLink_sdk cb s w = (Inl notInitialized, s, w) \<and>
          onDeepLink_sdk cb s w = (Inl notInitialized, s, w) \<and>
          handleDeepLink_sdk E url s w = (Inl notInitialized, s, w) \<and>
          createLink E options s w = (Inl notInitialized, w)"
      unfolding n
      by (simp add: new_LinkFortySDK_def guards getInstallId_sdk_def getInstallData_sdk_def
          isFirstLaunch_sdk_def queuedEventCount_sdk_def trackEvent_sdk_def trackRevenue_sdk_def
          flushEvents_def clearEventQueue_def onDeferredDeepLink_sdk_def onDeepLink_sdk_def
          handleDeepLink_sdk_def createLink_def)
  qed
  with r show "case calls E cs (new_LinkFortySDK, w0) of
      (s, w) \<Rightarrow>
        \<not> isInitialized s \<longrightarrow>
          getInstallId_sdk E s w = Inr None \<and>
          getInstallData_sdk E s w = Inr None \<and>
          isFirstLaunch_sdk E s w = Inr True \<and>
          queuedEventCount_sdk s = 0 \<and>
          trackEvent_sdk E now name props s w = (Inl notInitialized, s, w) \<and>
          trackRevenue_sdk E now amount currency props s w = (Inl notInitialized, s, w) \<and>
          flushEvents E s w = (Inl notInitialized, s, w) \<and>
          clearEventQueue E s w = (Inl notInitialized, s, w) \<and>
          onDeferredDeepLink_sdk cb s w = (Inl notInitialized, s, w) \<and>
          onDeepLink_sdk cb s w = (Inl notInitialized, s, w) \<and>
          handleDeepLink_sdk E url s w = (Inl notInitialized, s, w) \<and>
          createLink E options s w = (Inl notInitialized, w)"
    by simp
next
  show "\<not> isInitialized new_LinkFortySDK" by (simp add: new_LinkFortySDK_def)
next
  show "reset s0 = new_LinkFortySDK" by (rule reset_new)
next
  show "code notInitialized = Some NOT_INITIALIZED" by (simp add: notInitialized_def)
next
  show "\<not> isInitialized s1 \<and> validateConfig (env_newURL E) c = Some e \<longrightarrow>
      initialize E c s1 w1 = (Inl e, s1, w1)"
    by (simp add: initialize_def)
qed

lemma calls_snoc: "calls E (cs @ [c]) x = call E c (calls E cs x)"
  by (induction cs arbitrary: x) simp_all

lemma call_Reset: "fst (call E Reset x) = new_LinkFortySDK"
  by (cases x) (simp add: reset_new)

theorem uninitialized_facade_witness:
  "\<not> isInitialized (fst (calls test_env [Initialize validConfig, OnDeepLink 1, Reset]
                           (new_LinkFortySDK, empty_world))) \<and>
   (case calls test_env [Initialize validConfig, OnDeepLink 1, Reset]
           (new_LinkFortySDK, empty_world) of
      (s, w) \<Rightarrow>
        getInstallId_sdk test_env s w = Inr None \<and>
        getInstallData_sdk test_env s w = Inr None \<and>
        isFirstLaunch_sdk test_env s w = Inr True \<and>
        queuedEventCount_sdk s = 0 \<and>
        trackEvent_sdk test_env ''2026-01-01T00:00:00.000Z'' ''test'' None s w =
          (Inl notInitialized, s, w) \<and>
        trackRevenue_sdk test_env ''2026-01-01T00:00:00.000Z'' 9.99 ''USD'' None s w =
          (Inl notInitialized, s, w) \<and>
        flushEvents test_env s w = (Inl notInitialized, s, w) \<and>
        clearEventQueue test_env s w = (Inl notInitialized, s, w) \<and>
        onDeferredDeepLink_sdk 1 s w = (Inl notInitialized, s, w) \<and>
        onDeepLink_sdk 1 s w = (Inl notInitialized, s, w) \<and>
        handleDeepLink_sdk test_env ''https://go.example.com/abc'' s w =
          (Inl notInitialized, s, w) \<and>
        createLink test_env no_link_options s w = (Inl notInitialized, w)) \<and>
   validateConfig (env_newURL test_env) httpConfig =
     Some (invalidConfiguration ''Base URL must use HTTPS (HTTP only allowed for localhost)'') \<and>
   initialize test_env httpConfig new_LinkFortySDK empty_world =
     (Inl (invalidConfiguration ''Base URL must use HTTPS (HTTP only allowed for localhost)''),
      new_LinkFortySDK, empty_world)"
proof -
  have v: "validateConfig (env_newURL test_env) httpConfig =
     Some (invalidConfiguration ''Base URL must use HTTPS (HTTP only allowed for localhost)'')"
    by (simp add: validateConfig_def test_env_def httpConfig_def LOCALHOST_HOSTS_def)
  have n: "\<not> isInitialized new_LinkFortySDK" by (simp add: new_LinkFortySDK_def)
  have "calls test_env [Initialize validConfig, OnDeepLink 1, Reset] (new_LinkFortySDK, empty_world) =
        call test_env Reset
          (calls test_env [Initialize validConfig, OnDeepLink 1] (new_LinkFortySDK, empty_world))"
    using calls_snoc [of test_env "[Initialize validConfig, OnDeepLink 1]" Reset] by simp
  then have h: "\<not> isInitialized (fst (calls test_env [Initialize validConfig, OnDeepLink 1, Reset]
                           (new_LinkFortySDK, empty_world)))"
    by (simp only: call_Reset) (simp add: new_LinkFortySDK_def)
  show ?thesis
    using h v n uninitialized_facade [where E = test_env
        and cs = "[Initialize validConfig, OnDeepLink 1, Reset]" and ?w0.0 = empty_world
        and now = "''2026-01-01T00:00:00.000Z''" and name = "''test''" and props = None
        and amount = "9.99" and currency = "''USD''" and cb = 1
        and url = "''https://go.example.com/abc''" and options = no_link_options
        and ?s1.0 = new_LinkFortySDK and c = httpConfig and ?w1.0 = empty_world
        and e = "invalidConfiguration ''Base URL must use HTTPS (HTTP only allowed for localhost)''"]
    by (auto split: prod.splits)
qed

text \<open>
  C9 as stated fails. \<open>initialize\<close> sets \<open>_isInitialized\<close> before it awaits
  \<open>reportInstall\<close>. On a store whose reads are rejected, \<open>initialize\<close> passes config
  validation and then rejects with the store's error, so it has not succeeded; yet the
  facade is left initialized with its components in place: \<open>getInstallId\<close> and
  \<open>isFirstLaunch\<close> reject instead of degrading, \<open>trackEvent\<close> rejects with the store's
  error and not with \<open>NOT_INITIALIZED\<close>, and \<open>onDeepLink\<close>, \<open>onDeferredDeepLink\<close>,
  \<open>clearEventQueue\<close> and \<open>flushEvents\<close> do not throw.
\<close>

lemma validConfig_valid: "validateConfig (env_newURL test_env) validConfig = None"
  by (simp add: validateConfig_def test_env_def validConfig_def)

lemma initialize_rejected:
  "initialize test_env validConfig new_LinkFortySDK unreadable_world =
     (Inl (Error ''Storage unavailable''), half_initialized, unreadable_world)"
  by (simp add: initialize_def validConfig_valid Let_def new_LinkFortySDK_def)
     (simp add: reportInstall_def isFirstLaunch_def getItem_def unreadable_world_def load_def
        new_EventQueue_def half_initialized_def validConfig_def test_env_def)

theorem initialize_rejected_counterexample:
  "fst (initialize test_env validConfig new_LinkFortySDK unreadable_world) =
     Inl (Error ''Storage unavailable'') \<and>
   fst (snd (initialize test_env validConfig new_LinkFortySDK unreadable_world)) = half_initialized \<and>
   snd (snd (initialize test_env validConfig new_LinkFortySDK unreadable_world)) = unreadable_world \<and>
   isInitialized half_initialized \<and>
   getInstallId_sdk test_env half_initialized unreadable_world = Inl (Error ''Storage unavailable'') \<and>
   isFirstLaunch_sdk test_env half_initialized unreadable_world =
     Inl (Error ''Storage unavailable'') \<and>
   fst (trackEvent_sdk test_env ''2026-01-01T00:00:00.000Z'' ''test'' None half_initialized
          unreadable_world) = Inl (Error ''Storage unavailable'') \<and>
   Error ''Storage unavailable'' \<noteq> notInitialized \<and>
   fst (onDeepLink_sdk 1 half_initialized unreadable_world) = Inr () \<and>
   fst (onDeferredDeepLink_sdk 1 half_initialized unreadable_world) = Inr () \<and>
   fst (clearEventQueue test_env half_initialized unreadable_world) = Inr () \<and>
   fst (flushEvents test_env half_initialized unreadable_world) = Inr ()"
proof -
  have t: "trim ''test'' \<noteq> []" by (simp add: trim_def isWhiteSpace_def)
  have g: "getInstallId (env_keys test_env) (storage unreadable_world) =
             Inl (Error ''Storage unavailable'')"
    by (simp add: getInstallId_def getItem_def unreadable_world_def)
  have f: "flushLoop K J N \<lparr>queue = [], loaded = True\<rparr> w = (None, \<lparr>queue = [], loaded = True\<rparr>, w)"
    for K J N w
    by (rule flushLoop_Nil) simp
  show ?thesis
    unfolding initialize_rejected
    using t g
    by (simp add: half_initialized_def getInstallId_sdk_def isFirstLaunch_sdk_def
        isFirstLaunch_def getItem_def trackEvent_sdk_def requireEventTracker_def
        requireDeepLinkHandler_def trackEvent_def notInitialized_def onDeepLink_sdk_def
        onDeferredDeepLink_sdk_def onDeferredDeepLink_def clearEventQueue_def clearQueue_def
        clear_def Let_def flushEvents_def flushQueue_def load_def f)
       (simp add: unreadable_world_def)
qed

end
